theory Spec2Isabelle
  imports Main "HOL-Library.Sublist" "HOL-Library.Monad_Syntax"
begin

section \<open>Strings\<close>

text \<open>
  File names, paths and file contents are modelled as \<^typ>\<open>string\<close>. The case mapping
  and the white-space class of the host language are modelled on the ASCII range.
\<close>

text \<open>\<^verbatim>\<open>s.startsWith(p)\<close>\<close>

fun startsWith :: "string \<Rightarrow> string \<Rightarrow> bool" where
  "startsWith s [] = True"
| "startsWith [] (c # p) = False"
| "startsWith (d # s) (c # p) = (d = c \<and> startsWith s p)"

text \<open>\<^verbatim>\<open>s.endsWith(p)\<close>\<close>

definition endsWith :: "string \<Rightarrow> string \<Rightarrow> bool" where
  "endsWith s p = startsWith (rev s) (rev p)"

text \<open>\<^verbatim>\<open>s.includes(q)\<close>: \<open>q\<close> occurs in \<open>s\<close> as a contiguous substring.\<close>

fun str_includes :: "string \<Rightarrow> string \<Rightarrow> bool" where
  "str_includes [] q = (q = [])"
| "str_includes (c # s) q = (startsWith (c # s) q \<or> str_includes s q)"

definition upperChars :: string where
  "upperChars = ''ABCDEFGHIJKLMNOPQRSTUVWXYZ''"

definition lowerChars :: string where
  "lowerChars = ''abcdefghijklmnopqrstuvwxyz''"

definition toLowerChar :: "char \<Rightarrow> char" where
  "toLowerChar c = (case map_of (zip upperChars lowerChars) c of Some d \<Rightarrow> d | None \<Rightarrow> c)"

text \<open>\<^verbatim>\<open>s.toLowerCase()\<close>\<close>

definition toLowerCase :: "string \<Rightarrow> string" where
  "toLowerCase s = map toLowerChar s"

text \<open>The class \<^verbatim>\<open>\s\<close>: tab, line feed, vertical tab, form feed, carriage return, space.\<close>

definition isSpace :: "char \<Rightarrow> bool" where
  "isSpace c = (c \<in> set [CHR 0x09, CHR 0x0A, CHR 0x0B, CHR 0x0C, CHR 0x0D, CHR '' ''])"

text \<open>The class \<^verbatim>\<open>\w\<close>.\<close>

definition isWord :: "char \<Rightarrow> bool" where
  "isWord c = (c \<in> set (upperChars @ lowerChars @ ''0123456789_''))"

text \<open>\<^verbatim>\<open>s.trim()\<close>\<close>

definition trim :: "string \<Rightarrow> string" where
  "trim s = rev (dropWhile isSpace (rev (dropWhile isSpace s)))"

text \<open>\<^verbatim>\<open>s.split(d)\<close> for a one-character separator: never the empty array.\<close>

fun splitOn :: "char \<Rightarrow> string \<Rightarrow> string list" where
  "splitOn d [] = [[]]"
| "splitOn d (c # s) =
     (if c = d then [] # splitOn d s
      else (case splitOn d s of [] \<Rightarrow> [[c]] | x # xs \<Rightarrow> (c # x) # xs))"

text \<open>\<^verbatim>\<open>xs.join(sep)\<close>\<close>

fun joinWith :: "string \<Rightarrow> string list \<Rightarrow> string" where
  "joinWith sep [] = []"
| "joinWith sep [x] = x"
| "joinWith sep (x # y # ys) = x @ sep @ joinWith sep (y # ys)"

text \<open>\<^verbatim>\<open>xs.slice(a, b)\<close> for \<open>0 \<le> a\<close> and \<open>0 \<le> b\<close>\<close>

definition slice :: "nat \<Rightarrow> nat \<Rightarrow> 'a list \<Rightarrow> 'a list" where
  "slice a b xs = take (b - a) (drop a xs)"


section \<open>Paths (the POSIX \<^verbatim>\<open>path\<close> module)\<close>

text \<open>The non-empty segments of a path.\<close>

definition pathSegments :: "string \<Rightarrow> string list" where
  "pathSegments p = filter (\<lambda>s. s \<noteq> []) (splitOn CHR ''/'' p)"

text \<open>
  One step of \<^verbatim>\<open>normalizeString\<close>: the segments kept so far are a stack, top first.
  Empty segments and \<^verbatim>\<open>.\<close> are dropped; \<^verbatim>\<open>..\<close> pops a kept segment, and is itself
  kept only above the start of a relative path.
\<close>

definition normStep :: "bool \<Rightarrow> string list \<Rightarrow> string \<Rightarrow> string list" where
  "normStep allowAboveRoot res seg =
     (if seg = [] \<or> seg = ''.'' then res
      else if seg = ''..'' then
        (case res of
           [] \<Rightarrow> (if allowAboveRoot then [''..''] else [])
         | t # r \<Rightarrow> (if t = ''..'' then (if allowAboveRoot then ''..'' # res else res) else r))
      else seg # res)"

definition normalizeSegments :: "bool \<Rightarrow> string \<Rightarrow> string list" where
  "normalizeSegments allowAboveRoot path =
     rev (foldl (normStep allowAboveRoot) [] (splitOn CHR ''/'' path))"

definition normalizeString :: "bool \<Rightarrow> string \<Rightarrow> string" where
  "normalizeString allowAboveRoot path =
     joinWith ''/'' (normalizeSegments allowAboveRoot path)"

text \<open>
  \<^verbatim>\<open>resolve(...args)\<close>: the arguments are prepended from right to left, then the
  working directory, until the path built is absolute.
\<close>

fun resolvePaths :: "string list \<Rightarrow> string \<Rightarrow> string" where
  "resolvePaths [] acc = acc"
| "resolvePaths (p # ps) acc =
     (if p = [] then resolvePaths ps acc
      else if startsWith p ''/'' then p @ ''/'' @ acc
      else resolvePaths ps (p @ ''/'' @ acc))"

definition resolve :: "string \<Rightarrow> string list \<Rightarrow> string" where
  "resolve cwd args =
     (let resolvedPath = resolvePaths (rev args @ [cwd]) [];
          resolvedAbsolute = startsWith resolvedPath ''/'';
          n = normalizeString (\<not> resolvedAbsolute) resolvedPath
      in if resolvedAbsolute then ''/'' @ n else if n \<noteq> [] then n else ''.'')"

text \<open>\<^verbatim>\<open>normalize(path)\<close> and \<^verbatim>\<open>join(...args)\<close>\<close>

definition normalize :: "string \<Rightarrow> string" where
  "normalize path =
     (if path = [] then ''.''
      else
        let isAbsolute = startsWith path ''/'';
            trailingSeparator = endsWith path ''/'';
            n = normalizeString (\<not> isAbsolute) path
        in if n = [] then (if isAbsolute then ''/'' else if trailingSeparator then ''./'' else ''.'')
           else (if isAbsolute then ''/'' else []) @ n @ (if trailingSeparator then ''/'' else []))"

definition pathJoin :: "string list \<Rightarrow> string" where
  "pathJoin args =
     (let parts = filter (\<lambda>a. a \<noteq> []) args
      in if parts = [] then ''.'' else normalize (joinWith ''/'' parts))"

text \<open>
  \<^verbatim>\<open>extname(path)\<close>: from the last dot of the last path component to its end; empty
  when the component has no dot, when its only dot is its first character, and for the
  component \<^verbatim>\<open>..\<close>.
\<close>

definition lastComponent :: "string \<Rightarrow> string" where
  "lastComponent path =
     rev (takeWhile (\<lambda>c. c \<noteq> CHR ''/'') (dropWhile (\<lambda>c. c = CHR ''/'') (rev path)))"

definition extname :: "string \<Rightarrow> string" where
  "extname path =
     (let comp = lastComponent path;
          ext = rev (takeWhile (\<lambda>c. c \<noteq> CHR ''.'') (rev comp));
          stem = take (length comp - length ext - 1) comp
      in if CHR ''.'' \<notin> set comp then []
         else if stem = [] then []
         else if comp = ''..'' then []
         else CHR ''.'' # ext)"

text \<open>\<^verbatim>\<open>relative(from, to)\<close>, on the segments of the two resolved paths.\<close>

fun dropCommon :: "string list \<Rightarrow> string list \<Rightarrow> string list \<times> string list" where
  "dropCommon (x # xs) (y # ys) = (if x = y then dropCommon xs ys else (x # xs, y # ys))"
| "dropCommon xs ys = (xs, ys)"

definition relative :: "string \<Rightarrow> string \<Rightarrow> string \<Rightarrow> string" where
  "relative cwd from to =
     (case dropCommon (pathSegments (resolve cwd [from])) (pathSegments (resolve cwd [to])) of
        (up, down) \<Rightarrow> joinWith ''/'' (map (\<lambda>_. ''..'') up @ down))"


section \<open>The file system\<close>

text \<open>
  A file-system node is a regular file (with its text, or \<open>None\<close> when reading it
  fails), a directory (with its entries in listing order, or \<open>None\<close> when listing it
  fails), or something that is neither (a socket, a device, a dangling link).
\<close>

datatype fsnode =
    FileNode "string option"
  | DirNode "(string \<times> fsnode) list option"
  | OtherNode

text \<open>\<^verbatim>\<open>Dirent.isDirectory()\<close>, \<^verbatim>\<open>Dirent.isFile()\<close>\<close>

fun isDirectory :: "fsnode \<Rightarrow> bool" where
  "isDirectory (DirNode _) = True"
| "isDirectory _ = False"

fun isFile :: "fsnode \<Rightarrow> bool" where
  "isFile (FileNode _) = True"
| "isFile _ = False"

text \<open>
  The node an absolute, resolved path names, seen from the root directory. Symbolic
  links are not modelled, and nothing is found below a directory that cannot be listed.
\<close>

fun lookupSegments :: "fsnode \<Rightarrow> string list \<Rightarrow> fsnode option" where
  "lookupSegments n [] = Some n"
| "lookupSegments (DirNode (Some items)) (s # ss) =
     (case map_of items s of None \<Rightarrow> None | Some c \<Rightarrow> lookupSegments c ss)"
| "lookupSegments _ (s # ss) = None"

definition statPath :: "fsnode \<Rightarrow> string \<Rightarrow> fsnode option" where
  "statPath fs p = lookupSegments fs (pathSegments p)"


section \<open>Path Guard\<close>

text \<open>
  \<^verbatim>\<open>ANGULAR_PROJECT_PATH = resolve(process.cwd(), "../learning-notebook")\<close>: the scan
  root, fixed by the working directory of the process.
\<close>

definition ANGULAR_PROJECT_PATH :: "string \<Rightarrow> string" where
  "ANGULAR_PROJECT_PATH cwd = resolve cwd [cwd, ''../learning-notebook'']"

definition ALLOWED_EXTENSIONS :: "string list" where
  "ALLOWED_EXTENSIONS = [''.ts'', ''.html'', ''.scss'', ''.css'', ''.json'', ''.md'', ''.js'']"

text \<open>
  The three errors of \<^verbatim>\<open>validateFilePath\<close>: \<^verbatim>\<open>File path is outside project directory\<close>,
  \<^verbatim>\<open>File type <ext> not allowed\<close> and \<^verbatim>\<open>File not accessible\<close>.
\<close>

datatype error = OutOfScope | DisallowedType string | NotAccessible

definition validateFilePath :: "string \<Rightarrow> fsnode \<Rightarrow> string \<Rightarrow> error + string" where
  "validateFilePath cwd fs filePath =
     (let fullPath = resolve cwd [ANGULAR_PROJECT_PATH cwd, filePath]
      in if \<not> startsWith fullPath (resolve cwd [ANGULAR_PROJECT_PATH cwd]) then Inl OutOfScope
         else
           let ext = extname fullPath
           in if ext \<notin> set ALLOWED_EXTENSIONS then Inl (DisallowedType ext)
              else (case statPath fs fullPath of
                      None \<Rightarrow> Inl NotAccessible
                    | Some stats \<Rightarrow> if \<not> isFile stats then Inl NotAccessible else Inr fullPath))"

text \<open>A path lies inside a directory when the directory's segments begin the path's.\<close>

definition pathInside :: "string \<Rightarrow> string \<Rightarrow> bool" where
  "pathInside dir p = prefix (pathSegments dir) (pathSegments p)"


section \<open>Pattern Search Engine\<close>

record SearchResult =
  file' :: string
  line :: nat
  context' :: string
  excerpt :: string

text \<open>\<^verbatim>\<open>xs.forEach((x, index) => ...)\<close>, the callback updating the state \<open>st\<close>.\<close>

fun forEachIndexed :: "('a \<Rightarrow> nat \<Rightarrow> 's \<Rightarrow> 's) \<Rightarrow> 'a list \<Rightarrow> nat \<Rightarrow> 's \<Rightarrow> 's" where
  "forEachIndexed f [] index st = st"
| "forEachIndexed f (x # xs) index st = forEachIndexed f xs (index + 1) (f x index st)"

text \<open>
  The callback of \<^verbatim>\<open>lines.forEach\<close> in \<^verbatim>\<open>performSearch\<close>: a matching line pushes one
  result onto the shared array \<open>results\<close>.
\<close>

definition searchLine ::
  "string \<Rightarrow> string \<Rightarrow> string \<Rightarrow> string list \<Rightarrow> string \<Rightarrow> nat
     \<Rightarrow> SearchResult list \<Rightarrow> SearchResult list" where
  "searchLine cwd query fullPath lines ln index results =
     (if str_includes (toLowerCase ln) (toLowerCase query)
      then results @
             [\<lparr>file' = relative cwd (ANGULAR_PROJECT_PATH cwd) fullPath,
               line = index + 1,
               context' = trim ln,
               excerpt = joinWith [CHR 0x0A] (slice (nat (max 0 (int index - 2))) (index + 3) lines)\<rparr>]
      else results)"

text \<open>
  The inner \<^verbatim>\<open>searchFiles(dir)\<close> of \<^verbatim>\<open>performSearch\<close>, with the node found at \<open>dir\<close>;
  \<open>searchItems\<close> is its loop over the directory entries. A directory that cannot be
  listed and a file that cannot be read leave \<open>results\<close> as they are.
\<close>

fun searchFiles ::
  "string \<Rightarrow> string \<Rightarrow> string list \<Rightarrow> string \<Rightarrow> fsnode \<Rightarrow> SearchResult list \<Rightarrow> SearchResult list"
and searchItems ::
  "string \<Rightarrow> string \<Rightarrow> string list \<Rightarrow> string \<Rightarrow> (string \<times> fsnode) list
     \<Rightarrow> SearchResult list \<Rightarrow> SearchResult list" where
  "searchFiles cwd query allowedTypes dir (DirNode (Some items)) results =
     searchItems cwd query allowedTypes dir items results"
| "searchFiles cwd query allowedTypes dir (DirNode None) results = results"
| "searchFiles cwd query allowedTypes dir (FileNode c) results = results"
| "searchFiles cwd query allowedTypes dir OtherNode results = results"
| "searchItems cwd query allowedTypes dir [] results = results"
| "searchItems cwd query allowedTypes dir ((name, item) # items) results =
     (let fullPath = pathJoin [dir, name]
      in if isDirectory item \<and> \<not> startsWith name ''.'' \<and> name \<noteq> ''node_modules''
              \<and> name \<noteq> ''dist''
         then searchItems cwd query allowedTypes dir items
                (searchFiles cwd query allowedTypes fullPath item results)
         else if isFile item \<and> extname name \<in> set allowedTypes
         then searchItems cwd query allowedTypes dir items
                (case item of
                   FileNode (Some content) \<Rightarrow>
                     (let lines = splitOn (CHR 0x0A) content
                      in forEachIndexed (searchLine cwd query fullPath lines) lines 0 results)
                 | _ \<Rightarrow> results)
         else searchItems cwd query allowedTypes dir items results)"

text \<open>
  \<^verbatim>\<open>performSearch(searchDir, query, allowedTypes)\<close> on the file system \<open>fs\<close>; a search
  directory that does not exist cannot be listed.
\<close>

definition performSearch ::
  "string \<Rightarrow> fsnode \<Rightarrow> string \<Rightarrow> string \<Rightarrow> string list \<Rightarrow> SearchResult list" where
  "performSearch cwd fs searchDir query allowedTypes =
     slice 0 50
       (case statPath fs searchDir of
          None \<Rightarrow> []
        | Some node \<Rightarrow> searchFiles cwd query allowedTypes searchDir node [])"

text \<open>The inner \<^verbatim>\<open>countFiles(dir)\<close> of \<^verbatim>\<open>countSearchableFiles\<close>, and its loop.\<close>

fun countFiles :: "string list \<Rightarrow> string \<Rightarrow> fsnode \<Rightarrow> nat \<Rightarrow> nat"
and countItems :: "string list \<Rightarrow> string \<Rightarrow> (string \<times> fsnode) list \<Rightarrow> nat \<Rightarrow> nat" where
  "countFiles allowedTypes dir (DirNode (Some items)) count = countItems allowedTypes dir items count"
| "countFiles allowedTypes dir (DirNode None) count = count"
| "countFiles allowedTypes dir (FileNode c) count = count"
| "countFiles allowedTypes dir OtherNode count = count"
| "countItems allowedTypes dir [] count = count"
| "countItems allowedTypes dir ((name, item) # items) count =
     (let fullPath = pathJoin [dir, name]
      in if isDirectory item \<and> \<not> startsWith name ''.'' \<and> name \<noteq> ''node_modules''
              \<and> name \<noteq> ''dist''
         then countItems allowedTypes dir items (countFiles allowedTypes fullPath item count)
         else if isFile item \<and> extname name \<in> set allowedTypes
         then countItems allowedTypes dir items (count + 1)
         else countItems allowedTypes dir items count)"

definition countSearchableFiles :: "fsnode \<Rightarrow> string \<Rightarrow> string list \<Rightarrow> nat" where
  "countSearchableFiles fs searchDir allowedTypes =
     (case statPath fs searchDir of
        None \<Rightarrow> 0
      | Some node \<Rightarrow> countFiles allowedTypes searchDir node 0)"


section \<open>Traversal order, stated declaratively\<close>

text \<open>
  The files a search visits, depth first and in directory-entry order: every regular
  file whose extension is listed, below directories that are neither hidden nor named
  \<^verbatim>\<open>node_modules\<close> or \<^verbatim>\<open>dist\<close>. Each comes with its path and its text, if readable.
\<close>

fun walkFiles :: "string list \<Rightarrow> string \<Rightarrow> fsnode \<Rightarrow> (string \<times> string option) list"
and walkItems :: "string list \<Rightarrow> string \<Rightarrow> (string \<times> fsnode) list \<Rightarrow> (string \<times> string option) list" where
  "walkFiles allowedTypes dir (DirNode (Some items)) = walkItems allowedTypes dir items"
| "walkFiles allowedTypes dir (DirNode None) = []"
| "walkFiles allowedTypes dir (FileNode c) = []"
| "walkFiles allowedTypes dir OtherNode = []"
| "walkItems allowedTypes dir [] = []"
| "walkItems allowedTypes dir ((name, item) # items) =
     (if isDirectory item \<and> \<not> startsWith name ''.'' \<and> name \<noteq> ''node_modules''
           \<and> name \<noteq> ''dist''
      then walkFiles allowedTypes (pathJoin [dir, name]) item
      else if isFile item \<and> extname name \<in> set allowedTypes
      then [(pathJoin [dir, name], case item of FileNode c \<Rightarrow> c | _ \<Rightarrow> None)]
      else [])
     @ walkItems allowedTypes dir items"

text \<open>The hit for the line at \<open>index\<close> of a file, and the hits of a file in line order.\<close>

definition hitAt :: "string \<Rightarrow> string \<Rightarrow> string list \<Rightarrow> nat \<Rightarrow> SearchResult" where
  "hitAt cwd fullPath lines index =
     \<lparr>file' = relative cwd (ANGULAR_PROJECT_PATH cwd) fullPath,
      line = index + 1,
      context' = trim (lines ! index),
      excerpt = joinWith [CHR 0x0A] (take (index + 3 - (index - 2)) (drop (index - 2) lines))\<rparr>"

definition lineMatches :: "string \<Rightarrow> string \<Rightarrow> bool" where
  "lineMatches query ln = str_includes (toLowerCase ln) (toLowerCase query)"

definition hitsOfFile :: "string \<Rightarrow> string \<Rightarrow> string \<times> string option \<Rightarrow> SearchResult list" where
  "hitsOfFile cwd query f =
     (case snd f of
        None \<Rightarrow> []
      | Some content \<Rightarrow>
          (let lines = splitOn (CHR 0x0A) content
           in map (hitAt cwd (fst f) lines)
                (filter (\<lambda>i. lineMatches query (lines ! i)) [0..<length lines])))"

text \<open>All hits of a search, in traversal order, before any cap.\<close>

definition traversalHits ::
  "string \<Rightarrow> fsnode \<Rightarrow> string \<Rightarrow> string \<Rightarrow> string list \<Rightarrow> SearchResult list" where
  "traversalHits cwd fs searchDir query allowedTypes =
     (case statPath fs searchDir of
        None \<Rightarrow> []
      | Some node \<Rightarrow> concat (map (hitsOfFile cwd query) (walkFiles allowedTypes searchDir node)))"


section \<open>Regular expressions of the source\<close>

text \<open>
  The literal regular expressions of the source are modelled by hand-written matchers.
  Each matcher tries one start position; \<open>firstMatch\<close> tries the positions from left to
  right, as \<^verbatim>\<open>String.prototype.match\<close> does.
\<close>

fun firstMatch :: "(string \<Rightarrow> 'a option) \<Rightarrow> string \<Rightarrow> 'a option" where
  "firstMatch m [] = m []"
| "firstMatch m (c # s) = (case m (c # s) of Some r \<Rightarrow> Some r | None \<Rightarrow> firstMatch m s)"

text \<open>A literal: the rest of the input after it.\<close>

definition stripPrefix :: "string \<Rightarrow> string \<Rightarrow> string option" where
  "stripPrefix lit s = (if startsWith s lit then Some (drop (length lit) s) else None)"

text \<open>\<^verbatim>\<open>\s+\<close> and \<^verbatim>\<open>\s*\<close> before something that is not white space.\<close>

definition spaces1 :: "string \<Rightarrow> string option" where
  "spaces1 s = (case s of [] \<Rightarrow> None | c # _ \<Rightarrow> if isSpace c then Some (dropWhile isSpace s) else None)"

definition spaces0 :: "string \<Rightarrow> string" where
  "spaces0 s = dropWhile isSpace s"

text \<open>
  \<^verbatim>\<open>[^...]+\<close> followed by a closing character: the longest run of characters outside
  \<open>stop\<close>, not empty, with a character satisfying \<open>close\<close> right after it. Gives the run
  and the input after the closing character.
\<close>

definition runUntil :: "(char \<Rightarrow> bool) \<Rightarrow> (char \<Rightarrow> bool) \<Rightarrow> string \<Rightarrow> (string \<times> string) option" where
  "runUntil stop close s =
     (let run = takeWhile (\<lambda>c. \<not> stop c) s
      in if run = [] then None
         else (case drop (length run) s of
                 [] \<Rightarrow> None
               | c # rest \<Rightarrow> if close c then Some (run, rest) else None))"

definition isQuote2 :: "char \<Rightarrow> bool" where
  "isQuote2 c = (c = CHR 0x27 \<or> c = CHR 0x22)"

definition isQuote3 :: "char \<Rightarrow> bool" where
  "isQuote3 c = (c = CHR 0x27 \<or> c = CHR 0x22 \<or> c = CHR 0x60)"

text \<open>\<^verbatim>\<open>/export\s+class\s+(\w+Component)/\<close>: the greedy \<^verbatim>\<open>\w+\<close> gives back characters until
  \<^verbatim>\<open>Component\<close> follows, so the capture is the longest prefix of the word that ends in
  \<^verbatim>\<open>Component\<close> and has a character before it.\<close>

definition componentWord :: "string \<Rightarrow> string option" where
  "componentWord s =
     List.find (\<lambda>p. endsWith p ''Component'' \<and> length ''Component'' < length p)
       (rev (prefixes (takeWhile isWord s)))"

definition exportClassAt :: "string \<Rightarrow> string option" where
  "exportClassAt s =
     do {
       s1 \<leftarrow> stripPrefix ''export'' s;
       s2 \<leftarrow> spaces1 s1;
       s3 \<leftarrow> stripPrefix ''class'' s2;
       s4 \<leftarrow> spaces1 s3;
       componentWord s4
     }"

text \<open>\<^verbatim>\<open>/selector:\s*['"`]([^'"`]+)['"`]/\<close>\<close>

definition selectorAt :: "string \<Rightarrow> string option" where
  "selectorAt s =
     do {
       s1 \<leftarrow> stripPrefix ''selector:'' s;
       (case spaces0 s1 of
          [] \<Rightarrow> None
        | q # s2 \<Rightarrow> if isQuote3 q then map_option fst (runUntil isQuote3 isQuote3 s2) else None)
     }"

text \<open>\<^verbatim>\<open>/import\s+{([^}]+)}\s+from\s+['"]([^'"]+)['"]/\<close>, the first capture.\<close>

definition importListAt :: "string \<Rightarrow> string option" where
  "importListAt s =
     do {
       s1 \<leftarrow> stripPrefix ''import'' s;
       s2 \<leftarrow> spaces1 s1;
       s3 \<leftarrow> stripPrefix ''{'' s2;
       (names, s4) \<leftarrow> runUntil (\<lambda>c. c = CHR ''}'') (\<lambda>c. c = CHR ''}'') s3;
       s5 \<leftarrow> spaces1 s4;
       s6 \<leftarrow> stripPrefix ''from'' s5;
       s7 \<leftarrow> spaces1 s6;
       (case s7 of
          [] \<Rightarrow> None
        | q # s8 \<Rightarrow> if isQuote2 q
                    then map_option (\<lambda>_. names) (runUntil isQuote2 isQuote2 s8)
                    else None)
     }"

text \<open>\<^verbatim>\<open>/imports:\s*\[([^\]]+)\]/\<close>\<close>

definition importsArrayAt :: "string \<Rightarrow> string option" where
  "importsArrayAt s =
     do {
       s1 \<leftarrow> stripPrefix ''imports:'' s;
       s2 \<leftarrow> stripPrefix ''['' (spaces0 s1);
       map_option fst (runUntil (\<lambda>c. c = CHR '']'') (\<lambda>c. c = CHR '']'') s2)
     }"

text \<open>
  \<^verbatim>\<open>new RegExp(`<${selector}[\\s>]`, 'g').test(line)\<close>. The selector is spliced into the
  pattern. A selector without syntax characters stands for itself: the test succeeds
  when the line has \<^verbatim>\<open><selector\<close> followed by white space or \<^verbatim>\<open>>\<close>. For any other
  selector the outcome is that of the host's engine \<open>rx\<close> on the pattern, \<open>None\<close> when
  the constructor rejects the pattern.
\<close>

definition isSyntaxChar :: "char \<Rightarrow> bool" where
  "isSyntaxChar c = (c \<in> set (CHR 0x5C # ''^$.*+?()[]{}|''))"

fun literalTagTest :: "string \<Rightarrow> string \<Rightarrow> bool" where
  "literalTagTest pat [] = False"
| "literalTagTest pat (c # s) =
     ((startsWith (c # s) pat \<and>
       (case drop (length pat) (c # s) of [] \<Rightarrow> False | d # _ \<Rightarrow> isSpace d \<or> d = CHR ''>''))
      \<or> literalTagTest pat s)"

definition selectorRegexTest :: "(string \<Rightarrow> string \<Rightarrow> bool option) \<Rightarrow> string \<Rightarrow> string \<Rightarrow> bool option" where
  "selectorRegexTest rx sel ln =
     (if list_ex isSyntaxChar sel
      then rx (''<'' @ sel @ [CHR ''['', CHR 0x5C, CHR ''s'', CHR ''>'', CHR '']'']) ln
      else Some (literalTagTest (''<'' @ sel) ln))"

text \<open>The decimal digits of a number, as a template literal prints it.\<close>

fun showNat :: "nat \<Rightarrow> string" where
  "showNat n =
     (if n < 10 then [''0123456789'' ! n]
      else showNat (n div 10) @ [''0123456789'' ! (n mod 10)])"


section \<open>Usage Graph Builder\<close>

datatype component_category = UI | Layout | Feature | External

datatype usage_type = Template | Typescript

record UsageLocation =
  loc_file :: string
  loc_type :: usage_type
  loc_line :: nat
  loc_context :: string
  loc_usage :: string

record ComponentUsage =
  component :: string
  selector :: string
  usedIn :: "UsageLocation list"
  totalUsages :: nat
  importPath :: string
  category :: component_category

text \<open>
  A \<^verbatim>\<open>Map<string, ComponentUsage>\<close> in insertion order. \<^verbatim>\<open>set\<close> on a key that is present
  replaces its value where it stands; a new key goes to the end.
\<close>

type_synonym usage_map = "(string \<times> ComponentUsage) list"

fun mapSet :: "string \<Rightarrow> ComponentUsage \<Rightarrow> usage_map \<Rightarrow> usage_map" where
  "mapSet k v [] = [(k, v)]"
| "mapSet k v ((k', v') # m) = (if k' = k then (k, v) # m else (k', v') # mapSet k v m)"

definition mapHas :: "usage_map \<Rightarrow> string \<Rightarrow> bool" where
  "mapHas m k = (map_of m k \<noteq> None)"

text \<open>
  \<^verbatim>\<open>usage.usedIn.push(loc); usage.totalUsages++\<close> on the entry stored under \<open>k\<close>.
\<close>

definition recordUsage :: "string \<Rightarrow> UsageLocation \<Rightarrow> usage_map \<Rightarrow> usage_map" where
  "recordUsage k loc m =
     (case map_of m k of
        None \<Rightarrow> m
      | Some usage \<Rightarrow>
          mapSet k ((usage\<lparr>usedIn := usedIn usage @ [loc]\<rparr>)\<lparr>totalUsages := totalUsages usage + 1\<rparr>) m)"

text \<open>
  \<^verbatim>\<open>scanDirectory(dirPath, fileHandler)\<close> with the node found at \<open>dirPath\<close>. The handler
  gets the path of a regular file and what reading the file gives, and updates the
  state of the scan.
\<close>

fun scanDirectory ::
  "(string \<Rightarrow> string option \<Rightarrow> 's \<Rightarrow> 's) \<Rightarrow> string \<Rightarrow> fsnode \<Rightarrow> 's \<Rightarrow> 's"
and scanItems ::
  "(string \<Rightarrow> string option \<Rightarrow> 's \<Rightarrow> 's) \<Rightarrow> string \<Rightarrow> (string \<times> fsnode) list \<Rightarrow> 's \<Rightarrow> 's" where
  "scanDirectory fileHandler dirPath (DirNode (Some items)) st = scanItems fileHandler dirPath items st"
| "scanDirectory fileHandler dirPath (DirNode None) st = st"
| "scanDirectory fileHandler dirPath (FileNode c) st = st"
| "scanDirectory fileHandler dirPath OtherNode st = st"
| "scanItems fileHandler dirPath [] st = st"
| "scanItems fileHandler dirPath ((name, item) # items) st =
     (let fullPath = pathJoin [dirPath, name]
      in if isDirectory item \<and> \<not> startsWith name ''.'' \<and> name \<noteq> ''node_modules''
              \<and> name \<noteq> ''dist''
         then scanItems fileHandler dirPath items (scanDirectory fileHandler fullPath item st)
         else if isFile item
         then scanItems fileHandler dirPath items
                (fileHandler fullPath (case item of FileNode c \<Rightarrow> c | _ \<Rightarrow> None) st)
         else scanItems fileHandler dirPath items st)"

definition extractComponentName :: "string \<Rightarrow> string option" where
  "extractComponentName content = firstMatch exportClassAt content"

definition extractSelector :: "string \<Rightarrow> string" where
  "extractSelector content =
     (case firstMatch selectorAt content of Some sel \<Rightarrow> sel | None \<Rightarrow> ''unknown-selector'')"

definition determineComponentCategory :: "string \<Rightarrow> component_category" where
  "determineComponentCategory filePath =
     (if str_includes filePath ''shared/components/ui'' then UI
      else if str_includes filePath ''layout/'' then Layout
      else if str_includes filePath ''features/'' then Feature
      else External)"

text \<open>The file handler of \<^verbatim>\<open>discoverComponents\<close>.\<close>

definition discoverFile :: "string \<Rightarrow> string \<Rightarrow> string \<Rightarrow> string option \<Rightarrow> usage_map \<Rightarrow> usage_map" where
  "discoverFile cwd projectPath filePath readResult componentUsages =
     (if endsWith filePath ''.component.ts'' then
        (case readResult of
           None \<Rightarrow> componentUsages
         | Some content \<Rightarrow>
             (let componentName = extractComponentName content;
                  sel = extractSelector content
              in case componentName of
                   None \<Rightarrow> componentUsages
                 | Some cname \<Rightarrow>
                     if cname \<noteq> [] \<and> sel \<noteq> [] then
                       (let relativePath = relative cwd projectPath filePath
                        in mapSet cname
                             \<lparr>component = cname, selector = sel, usedIn = [], totalUsages = 0,
                              importPath = relativePath,
                              category = determineComponentCategory relativePath\<rparr>
                             componentUsages)
                     else componentUsages))
      else componentUsages)"

definition discoverComponents :: "string \<Rightarrow> fsnode \<Rightarrow> string \<Rightarrow> usage_map \<Rightarrow> usage_map" where
  "discoverComponents cwd fs projectPath componentUsages =
     (let srcPath = pathJoin [projectPath, ''src'']
      in case statPath fs srcPath of
           None \<Rightarrow> componentUsages
         | Some node \<Rightarrow> scanDirectory (discoverFile cwd projectPath) srcPath node componentUsages)"

text \<open>\<^verbatim>\<open>getContextLines(lines, targetIndex, radius)\<close>; the marker is an arrow and a space.\<close>

definition getContextLines :: "string list \<Rightarrow> nat \<Rightarrow> nat \<Rightarrow> string" where
  "getContextLines lines targetIndex radius =
     (let start = nat (max 0 (int targetIndex - int radius));
          end' = min (length lines) (targetIndex + radius + 1)
      in joinWith [CHR 0x0A]
           (map (\<lambda>(ln, index).
                   (if start + index = targetIndex then [CHR 0xE2, CHR 0x86, CHR 0x92, CHR '' '']
                    else ''  '')
                   @ showNat (start + index + 1) @ '': '' @ ln)
              (zip (slice start end' lines) [0..<length (slice start end' lines)])))"

text \<open>The two inner callbacks and the line callback of \<^verbatim>\<open>scanTypeScriptFile\<close>.\<close>

definition importNameUsage ::
  "string \<Rightarrow> bool \<Rightarrow> string list \<Rightarrow> string \<Rightarrow> nat \<Rightarrow> usage_map \<Rightarrow> string \<Rightarrow> usage_map" where
  "importNameUsage filePath includeContext lines ln index componentUsages importName =
     (if mapHas componentUsages importName
      then recordUsage importName
             \<lparr>loc_file = filePath, loc_type = Typescript, loc_line = index + 1,
              loc_context = (if includeContext then getContextLines lines index 2 else []),
              loc_usage = ''Import: '' @ trim ln\<rparr>
             componentUsages
      else componentUsages)"

definition componentRefUsage ::
  "string \<Rightarrow> bool \<Rightarrow> string list \<Rightarrow> string \<Rightarrow> nat \<Rightarrow> usage_map \<Rightarrow> string \<Rightarrow> usage_map" where
  "componentRefUsage filePath includeContext lines ln index componentUsages ref =
     (if mapHas componentUsages ref
      then recordUsage ref
             \<lparr>loc_file = filePath, loc_type = Typescript, loc_line = index + 1,
              loc_context = (if includeContext then getContextLines lines index 2 else []),
              loc_usage = ''Component Import: '' @ ref\<rparr>
             componentUsages
      else componentUsages)"

definition scanTypeScriptLine ::
  "string \<Rightarrow> bool \<Rightarrow> string list \<Rightarrow> string \<Rightarrow> nat \<Rightarrow> usage_map \<Rightarrow> usage_map" where
  "scanTypeScriptLine filePath includeContext lines ln index componentUsages =
     (let afterImports =
            (case firstMatch importListAt ln of
               None \<Rightarrow> componentUsages
             | Some names \<Rightarrow>
                 foldl (importNameUsage filePath includeContext lines ln index) componentUsages
                   (map trim (splitOn CHR '','' names)))
      in case firstMatch importsArrayAt ln of
           None \<Rightarrow> afterImports
         | Some refs \<Rightarrow>
             foldl (componentRefUsage filePath includeContext lines ln index) afterImports
               (map trim (splitOn CHR '','' refs)))"

definition scanTypeScriptFile :: "string \<Rightarrow> string \<Rightarrow> usage_map \<Rightarrow> bool \<Rightarrow> usage_map" where
  "scanTypeScriptFile content filePath componentUsages includeContext =
     (let lines = splitOn (CHR 0x0A) content
      in forEachIndexed (scanTypeScriptLine filePath includeContext lines) lines 0 componentUsages)"

text \<open>
  A scan that builds a regular expression can be cut short by the constructor throwing;
  what was recorded until then stays recorded.
\<close>

datatype 's outcome = Completed 's | Thrown 's

fun outcomeState :: "'s outcome \<Rightarrow> 's" where
  "outcomeState (Completed st) = st"
| "outcomeState (Thrown st) = st"

text \<open>
  \<^verbatim>\<open>componentUsages.forEach((usage, componentName) => ...)\<close> in \<^verbatim>\<open>scanTemplateFile\<close>,
  over the keys in insertion order.
\<close>

fun scanTemplateLine ::
  "(string \<Rightarrow> string \<Rightarrow> bool option) \<Rightarrow> string \<Rightarrow> bool \<Rightarrow> string list \<Rightarrow> string \<Rightarrow> nat
     \<Rightarrow> string list \<Rightarrow> usage_map \<Rightarrow> usage_map outcome" where
  "scanTemplateLine rx filePath includeContext lines ln index [] componentUsages =
     Completed componentUsages"
| "scanTemplateLine rx filePath includeContext lines ln index (componentName # rest) componentUsages =
     (case map_of componentUsages componentName of
        None \<Rightarrow> scanTemplateLine rx filePath includeContext lines ln index rest componentUsages
      | Some usage \<Rightarrow>
          (case selectorRegexTest rx (selector usage) ln of
             None \<Rightarrow> Thrown componentUsages
           | Some matched \<Rightarrow>
               scanTemplateLine rx filePath includeContext lines ln index rest
                 (if matched
                  then recordUsage componentName
                         \<lparr>loc_file = filePath, loc_type = Template, loc_line = index + 1,
                          loc_context = (if includeContext then getContextLines lines index 1 else []),
                          loc_usage = ''Template: <'' @ selector usage @ ''>''\<rparr>
                         componentUsages
                  else componentUsages)))"

fun scanTemplateLines ::
  "(string \<Rightarrow> string \<Rightarrow> bool option) \<Rightarrow> string \<Rightarrow> bool \<Rightarrow> string list \<Rightarrow> string list \<Rightarrow> nat
     \<Rightarrow> usage_map \<Rightarrow> usage_map outcome" where
  "scanTemplateLines rx filePath includeContext lines [] index componentUsages =
     Completed componentUsages"
| "scanTemplateLines rx filePath includeContext lines (ln # rest) index componentUsages =
     (case scanTemplateLine rx filePath includeContext lines ln index (map fst componentUsages)
             componentUsages of
        Thrown st \<Rightarrow> Thrown st
      | Completed st \<Rightarrow> scanTemplateLines rx filePath includeContext lines rest (index + 1) st)"

definition scanTemplateFile ::
  "(string \<Rightarrow> string \<Rightarrow> bool option) \<Rightarrow> string \<Rightarrow> string \<Rightarrow> usage_map \<Rightarrow> bool \<Rightarrow> usage_map outcome" where
  "scanTemplateFile rx content filePath componentUsages includeContext =
     (let lines = splitOn (CHR 0x0A) content
      in scanTemplateLines rx filePath includeContext lines lines 0 componentUsages)"

text \<open>The file handler of \<^verbatim>\<open>scanForUsages\<close>; its \<^verbatim>\<open>catch\<close> keeps what was recorded.\<close>

definition usageFile ::
  "(string \<Rightarrow> string \<Rightarrow> bool option) \<Rightarrow> string \<Rightarrow> string \<Rightarrow> bool \<Rightarrow> string \<Rightarrow> string option
     \<Rightarrow> usage_map \<Rightarrow> usage_map" where
  "usageFile rx cwd projectPath includeContext filePath readResult componentUsages =
     (let ext = extname filePath
      in if ext \<in> set ALLOWED_EXTENSIONS then
           (case readResult of
              None \<Rightarrow> componentUsages
            | Some content \<Rightarrow>
                (let relativePath = relative cwd projectPath filePath
                 in if ext = ''.ts''
                    then scanTypeScriptFile content relativePath componentUsages includeContext
                    else if ext = ''.html''
                    then outcomeState
                           (scanTemplateFile rx content relativePath componentUsages includeContext)
                    else componentUsages))
         else componentUsages)"

definition scanForUsages ::
  "(string \<Rightarrow> string \<Rightarrow> bool option) \<Rightarrow> string \<Rightarrow> fsnode \<Rightarrow> string \<Rightarrow> usage_map \<Rightarrow> bool \<Rightarrow> usage_map" where
  "scanForUsages rx cwd fs projectPath componentUsages includeContext =
     (let srcPath = pathJoin [projectPath, ''src'']
      in case statPath fs srcPath of
           None \<Rightarrow> componentUsages
         | Some node \<Rightarrow>
             scanDirectory (usageFile rx cwd projectPath includeContext) srcPath node componentUsages)"

text \<open>
  \<^verbatim>\<open>results.sort((a, b) => b.totalUsages - a.totalUsages)\<close>: a stable sort, larger
  counts first.
\<close>

definition sortByUsage :: "ComponentUsage list \<Rightarrow> ComponentUsage list" where
  "sortByUsage results = sort_key (\<lambda>u. - int (totalUsages u)) results"

definition matchesTarget :: "string \<Rightarrow> ComponentUsage \<Rightarrow> bool" where
  "matchesTarget targetComponent usage =
     (str_includes (toLowerCase (component usage)) (toLowerCase targetComponent) \<or>
      str_includes (toLowerCase (selector usage)) (toLowerCase targetComponent))"

definition analyzeComponentUsage ::
  "(string \<Rightarrow> string \<Rightarrow> bool option) \<Rightarrow> string \<Rightarrow> fsnode \<Rightarrow> string \<Rightarrow> string \<Rightarrow> bool
     \<Rightarrow> ComponentUsage list" where
  "analyzeComponentUsage rx cwd fs projectPath targetComponent includeContext =
     (let discovered = discoverComponents cwd fs projectPath [];
          componentUsages = scanForUsages rx cwd fs projectPath discovered includeContext;
          results = map snd componentUsages
      in if targetComponent \<noteq> [] then filter (matchesTarget targetComponent) results
         else sortByUsage results)"


section \<open>Service discovery\<close>

record ServiceInfo =
  svc_name :: string
  svc_path :: string
  svc_purpose :: string
  svc_category :: string
  svc_patterns :: "string list"
  svc_dependencies :: "string list"

text \<open>\<^verbatim>\<open>s.replace(pat, rep)\<close> with a string pattern: the first occurrence only.\<close>

fun replaceFirst :: "string \<Rightarrow> string \<Rightarrow> string \<Rightarrow> string" where
  "replaceFirst pat rep [] = (if pat = [] then rep else [])"
| "replaceFirst pat rep (c # s) =
     (if startsWith (c # s) pat then rep @ drop (length pat) (c # s)
      else c # replaceFirst pat rep s)"

definition getServicePurpose :: "string \<Rightarrow> string \<Rightarrow> string" where
  "getServicePurpose nm content =
     (case map_of
             [(''layout.service.ts'', ''Responsive layout and sidebar state management''),
              (''theme.service.ts'', ''Dark/light theme switching with system detection''),
              (''local-storage.service.ts'', ''IndexedDB data persistence with reactive updates'')]
             nm of
        Some purpose \<Rightarrow> purpose
      | None \<Rightarrow> ''Angular service providing application functionality'')"

definition getServiceCategory :: "string \<Rightarrow> string" where
  "getServiceCategory p =
     (if str_includes p ''core/services'' then ''core''
      else if str_includes p ''shared/services'' then ''utility''
      else if str_includes p ''storage'' then ''data''
      else ''utility'')"

definition analyzeServicePatterns :: "string \<Rightarrow> string list" where
  "analyzeServicePatterns content =
     (if str_includes content ''Injectable'' then [''Injectable''] else [])
     @ (if str_includes content ''signal('' then [''Signals''] else [])
     @ (if str_includes content ''BehaviorSubject'' then [''Reactive''] else [])
     @ (if str_includes content ''inject('' then [''Modern DI''] else [])
     @ (if str_includes content ''computed('' then [''Computed''] else [])
     @ (if str_includes content (''providedIn: '' @ [CHR 0x27] @ ''root'' @ [CHR 0x27])
        then [''Singleton''] else [])"

text \<open>
  \<^verbatim>\<open>content.match(/import.*from ['"].*['"];/g)\<close>. A dot does not cross a line terminator,
  so every match lies in one line. Both \<^verbatim>\<open>.*\<close> are greedy: in a line, the match starts
  at the first \<^verbatim>\<open>import\<close> that has a \<^verbatim>\<open>from\<close> clause and a closing quote with a
  semicolon after it, and ends with the last such semicolon of the line; a line has at
  most one match.
\<close>

fun splitWhere :: "(char \<Rightarrow> bool) \<Rightarrow> string \<Rightarrow> string list" where
  "splitWhere P [] = [[]]"
| "splitWhere P (c # s) =
     (if P c then [] # splitWhere P s
      else (case splitWhere P s of [] \<Rightarrow> [[c]] | x # xs \<Rightarrow> (c # x) # xs))"

fun hasQuoteSemi :: "string \<Rightarrow> bool" where
  "hasQuoteSemi (a # b # s) = ((isQuote2 a \<and> b = CHR '';'') \<or> hasQuoteSemi (b # s))"
| "hasQuoteSemi _ = False"

fun hasFromClause :: "string \<Rightarrow> bool" where
  "hasFromClause [] = False"
| "hasFromClause (c # s) =
     ((case stripPrefix ''from '' (c # s) of
         Some (q # rest) \<Rightarrow> isQuote2 q \<and> hasQuoteSemi rest
       | _ \<Rightarrow> False)
      \<or> hasFromClause s)"

fun throughLastQuote :: "string \<Rightarrow> string" where
  "throughLastQuote [] = []"
| "throughLastQuote (c # s) = (if hasQuoteSemi (c # s) then c # throughLastQuote s else [])"

definition importStatementAt :: "string \<Rightarrow> string option" where
  "importStatementAt s =
     do {
       r \<leftarrow> stripPrefix ''import'' s;
       (if hasFromClause r then Some (''import'' @ throughLastQuote r @ '';'') else None)
     }"

definition importStatements :: "string \<Rightarrow> string list" where
  "importStatements content =
     concat (map (\<lambda>ln. case firstMatch importStatementAt ln of None \<Rightarrow> [] | Some imp \<Rightarrow> [imp])
               (splitWhere (\<lambda>c. c = CHR 0x0A \<or> c = CHR 0x0D) content))"

definition analyzeServiceDependencies :: "string \<Rightarrow> string list" where
  "analyzeServiceDependencies content =
     (let dependencies =
            concat (map (\<lambda>imp.
                           (if str_includes imp ''@angular/core'' then [''Angular Core''] else [])
                           @ (if str_includes imp ''rxjs'' then [''RxJS''] else [])
                           @ (if str_includes imp ''./'' then [''Local Service''] else []))
                      (importStatements content))
      in rev (remdups (rev dependencies)))"

text \<open>
  The inner \<^verbatim>\<open>searchFiles(currentDir)\<close> of \<^verbatim>\<open>findServiceFiles\<close>, and its loop over the
  entries: every directory is entered, whatever its name.
\<close>

fun searchServiceFiles :: "string \<Rightarrow> string \<Rightarrow> fsnode \<Rightarrow> ServiceInfo list \<Rightarrow> ServiceInfo list"
and searchServiceItems ::
  "string \<Rightarrow> string \<Rightarrow> (string \<times> fsnode) list \<Rightarrow> ServiceInfo list \<Rightarrow> ServiceInfo list" where
  "searchServiceFiles cwd currentDir (DirNode (Some items)) services =
     searchServiceItems cwd currentDir items services"
| "searchServiceFiles cwd currentDir (DirNode None) services = services"
| "searchServiceFiles cwd currentDir (FileNode c) services = services"
| "searchServiceFiles cwd currentDir OtherNode services = services"
| "searchServiceItems cwd currentDir [] services = services"
| "searchServiceItems cwd currentDir ((name, item) # items) services =
     (let fullPath = pathJoin [currentDir, name]
      in if isDirectory item
         then searchServiceItems cwd currentDir items (searchServiceFiles cwd fullPath item services)
         else if endsWith name ''.service.ts''
         then searchServiceItems cwd currentDir items
                (case item of
                   FileNode (Some content) \<Rightarrow>
                     (let relativePath = relative cwd (ANGULAR_PROJECT_PATH cwd) fullPath
                      in services @
                           [\<lparr>svc_name = replaceFirst ''.service.ts'' [] name,
                             svc_path = relativePath,
                             svc_purpose = getServicePurpose name content,
                             svc_category = getServiceCategory relativePath,
                             svc_patterns = analyzeServicePatterns content,
                             svc_dependencies = analyzeServiceDependencies content\<rparr>])
                 | _ \<Rightarrow> services)
         else searchServiceItems cwd currentDir items services)"

definition findServiceFiles :: "string \<Rightarrow> fsnode \<Rightarrow> string \<Rightarrow> ServiceInfo list" where
  "findServiceFiles cwd fs dir =
     (case statPath fs dir of
        None \<Rightarrow> []
      | Some node \<Rightarrow> searchServiceFiles cwd dir node [])"


section \<open>The search tool\<close>

text \<open>
  The handler of \<^verbatim>\<open>search_codebase\<close>, up to the data its report is rendered from: the
  results, the number of files searched and the number of files with matches. An
  absent or empty \<open>directory\<close> means the scan root; an absent \<open>fileTypes\<close> means the
  allowed extensions.
\<close>

datatype search_error = SearchDirOutside

definition searchCodebase ::
  "string \<Rightarrow> fsnode \<Rightarrow> string \<Rightarrow> string list option \<Rightarrow> string option
     \<Rightarrow> search_error + (SearchResult list \<times> nat \<times> nat)" where
  "searchCodebase cwd fs query fileTypes directory =
     (let searchDir =
            (case directory of
               None \<Rightarrow> ANGULAR_PROJECT_PATH cwd
             | Some d \<Rightarrow> if d \<noteq> [] then resolve cwd [ANGULAR_PROJECT_PATH cwd, d]
                         else ANGULAR_PROJECT_PATH cwd);
          allowedTypes = (case fileTypes of None \<Rightarrow> ALLOWED_EXTENSIONS | Some ts \<Rightarrow> ts)
      in if \<not> startsWith searchDir (resolve cwd [ANGULAR_PROJECT_PATH cwd]) then Inl SearchDirOutside
         else
           let results = performSearch cwd fs searchDir query allowedTypes;
               totalFiles = countSearchableFiles fs searchDir allowedTypes;
               matchedFiles = length (remdups (map file' results))
           in Inr (results, totalFiles, matchedFiles))"

section \<open>The counter invariant\<close>

text \<open>A component is counted when its counter is the length of its usage list.\<close>

definition counted :: "ComponentUsage \<Rightarrow> bool" where
  "counted u = (totalUsages u = length (usedIn u))"

definition allCounted :: "usage_map \<Rightarrow> bool" where
  "allCounted m = list_all counted (map snd m)"


section \<open>Example file systems\<close>

text \<open>
  A server started in \<^verbatim>\<open>/srv/mcp\<close> scans \<^verbatim>\<open>/srv/learning-notebook\<close>. The first example
  has a source file with a signal, a file of a type that is not allowed, a dependency
  directory, a file that cannot be read, and beside the project a directory whose name
  begins with the name of the scan root.
\<close>

definition exampleCwd :: string where
  "exampleCwd = ''/srv/mcp''"

definition signalFile :: string where
  "signalFile =
     joinWith [CHR 0x0A]
       [''// counter'', ''export class Counter {'', ''  const x = signal(0);  '',
        ''  // end'', ''}'', ''// eof'', []]"

definition exampleFs :: fsnode where
  "exampleFs =
     DirNode (Some
       [(''srv'', DirNode (Some
          [(''learning-notebook'', DirNode (Some
             [(''counter.ts'', FileNode (Some signalFile)),
              (''notes.exe'', FileNode (Some ''int signal = 0;'')),
              (''node_modules'', DirNode (Some
                 [(''pkg'', DirNode (Some
                    [(''index.ts'', FileNode (Some ''export const signal = 1;''))]))])),
              (''locked.ts'', FileNode None)])),
           (''learning-notebook-old'', DirNode (Some
             [(''notes.ts'', FileNode (Some ''old notes''))]))]))])"

text \<open>A project whose source directory holds the file with the signal and nothing else.\<close>

definition signalFs :: fsnode where
  "signalFs =
     DirNode (Some
       [(''srv'', DirNode (Some
          [(''learning-notebook'', DirNode (Some
             [(''src'', DirNode (Some [(''counter.ts'', FileNode (Some signalFile))]))]))]))])"

text \<open>A project with one file of fifty-two lines, each of them matching the query \<^verbatim>\<open>a\<close>.\<close>

definition manyLinesFs :: fsnode where
  "manyLinesFs =
     DirNode (Some
       [(''srv'', DirNode (Some
          [(''learning-notebook'', DirNode (Some
             [(''big.ts'', FileNode (Some (joinWith [CHR 0x0A] (replicate 52 ''a''))))]))]))])"

text \<open>
  A project with two components, found in the order \<^verbatim>\<open>AComponent\<close>, \<^verbatim>\<open>BComponent\<close>, and
  a template that uses the second one.
\<close>

definition usageFs :: fsnode where
  "usageFs =
     DirNode (Some
       [(''srv'', DirNode (Some
          [(''learning-notebook'', DirNode (Some
             [(''src'', DirNode (Some
                [(''a.component.ts'', FileNode (Some
                    (''@Component({ selector: '' @ [CHR 0x27] @ ''app-a'' @ [CHR 0x27] @ '' })''
                     @ [CHR 0x0A] @ ''export class AComponent {}''))),
                 (''b.component.ts'', FileNode (Some
                    (''@Component({ selector: '' @ [CHR 0x27] @ ''app-b'' @ [CHR 0x27] @ '' })''
                     @ [CHR 0x0A] @ ''export class BComponent {}''))),
                 (''page.html'', FileNode (Some
                    (''<main>'' @ [CHR 0x0A] @ ''  <app-b></app-b>'' @ [CHR 0x0A] @ ''</main>'')))]))]))]))])"

text \<open>
  A project whose services directory has a service of its own and, in a dependency
  directory below it, a service of a package.
\<close>

definition servicesFs :: fsnode where
  "servicesFs =
     DirNode (Some
       [(''srv'', DirNode (Some
          [(''learning-notebook'', DirNode (Some
             [(''src'', DirNode (Some
                [(''app'', DirNode (Some
                   [(''core'', DirNode (Some
                      [(''services'', DirNode (Some
                         [(''node_modules'', DirNode (Some
                             [(''pkg'', DirNode (Some
                                [(''http.service.ts'',
                                  FileNode (Some ''export class HttpService {}''))]))])),
                          (''theme.service.ts'',
                           FileNode (Some ''export class ThemeService {}''))]))]))]))]))]))]))])"

text \<open>An engine that is never asked: the selectors of the examples have no syntax characters.\<close>

definition noEngine :: "string \<Rightarrow> string \<Rightarrow> bool option" where
  "noEngine pattern ln = None"

section \<open>The search is the capped list of hits in traversal order\<close>

lemma nat_max_sub: "nat (max 0 (int n - 2)) = n - 2"
  by (cases "2 \<le> n") (simp_all add: max_def nat_diff_distrib')

lemma forEachIndexed_searchLine:
  "lines = pre @ ls \<Longrightarrow>
   forEachIndexed (searchLine cwd query fullPath lines) ls (length pre) results =
     results @ map (hitAt cwd fullPath lines)
       (filter (\<lambda>i. lineMatches query (lines ! i)) [length pre..<length lines])"
proof (induction ls arbitrary: pre results)
  case Nil
  then show ?case by simp
next
  case (Cons l ls)
  have eq: "lines = (pre @ [l]) @ ls" using Cons.prems by simp
  have nth: "lines ! length pre = l" using Cons.prems by simp
  have lt: "length pre < length lines" using Cons.prems by simp
  have upt: "[length pre..<length lines] = length pre # [Suc (length pre)..<length lines]"
    using lt by (rule upt_conv_Cons)
  have step: "searchLine cwd query fullPath lines l (length pre) results =
      results @ (if lineMatches query l then [hitAt cwd fullPath lines (length pre)] else [])"
    by (simp add: searchLine_def hitAt_def lineMatches_def slice_def nth nat_max_sub)
  show ?case
    using Cons.IH[OF eq, of "searchLine cwd query fullPath lines l (length pre) results"]
    by (simp add: step upt nth)
qed

lemma searchFile_hits:
  "forEachIndexed (searchLine cwd query fullPath (splitOn (CHR 0x0A) content))
      (splitOn (CHR 0x0A) content) 0 results =
   results @ hitsOfFile cwd query (fullPath, Some content)"
  using forEachIndexed_searchLine[of "splitOn (CHR 0x0A) content" "[]" "splitOn (CHR 0x0A) content"]
  by (simp add: hitsOfFile_def Let_def)

lemma searchFiles_walk:
  "searchFiles cwd query allowedTypes dir node results =
     results @ concat (map (hitsOfFile cwd query) (walkFiles allowedTypes dir node))"
  and searchItems_walk:
  "searchItems cwd query allowedTypes dir items results =
     results @ concat (map (hitsOfFile cwd query) (walkItems allowedTypes dir items))"
proof (induction cwd query allowedTypes dir node results and cwd query allowedTypes dir items results
       rule: searchFiles_searchItems.induct)
  case (6 cwd query allowedTypes dir name item items results)
  then show ?case
    by (auto simp: Let_def searchFile_hits hitsOfFile_def split: fsnode.splits option.splits)
qed simp_all

lemma countFiles_walk:
  "countFiles allowedTypes dir node count = count + length (walkFiles allowedTypes dir node)"
  and countItems_walk:
  "countItems allowedTypes dir items count = count + length (walkItems allowedTypes dir items)"
  by (induction allowedTypes dir node count and allowedTypes dir items count
       rule: countFiles_countItems.induct) (simp_all add: Let_def)

lemma performSearch_take:
  "performSearch cwd fs searchDir query allowedTypes =
     take 50 (traversalHits cwd fs searchDir query allowedTypes)"
  by (simp add: performSearch_def traversalHits_def slice_def searchFiles_walk split: option.splits)

lemma countSearchableFiles_walk:
  "countSearchableFiles fs searchDir allowedTypes =
     (case statPath fs searchDir of
        None \<Rightarrow> 0
      | Some node \<Rightarrow> length (walkFiles allowedTypes searchDir node))"
  by (simp add: countSearchableFiles_def countFiles_walk split: option.splits)

lemma hitsOfFile_file:
  "h \<in> set (hitsOfFile cwd query f) \<Longrightarrow>
   file' h = relative cwd (ANGULAR_PROJECT_PATH cwd) (fst f)"
  by (auto simp: hitsOfFile_def hitAt_def Let_def split: option.splits)

text \<open>
  C2. For every query, starting directory and extension list, \<^verbatim>\<open>performSearch\<close> returns
  at most 50 hits, and what it returns is the first 50 of all hits in traversal order
  (depth first, directory-entry order, ascending line order within a file): all of them
  when there are at most 50, exactly the first 50 when there are more.
\<close>

theorem performSearch_first_50_in_traversal_order:
  "length (performSearch cwd fs searchDir query allowedTypes) \<le> 50
   \<and> performSearch cwd fs searchDir query allowedTypes
       = take 50 (traversalHits cwd fs searchDir query allowedTypes)
   \<and> length (performSearch cwd fs searchDir query allowedTypes)
       = min (length (traversalHits cwd fs searchDir query allowedTypes)) 50"
  by (simp add: performSearch_take)

text \<open>
  C7. The number of distinct file paths among the results of a search is at most the
  number of searchable files counted for the same directory and extension list.
\<close>

theorem search_files_le_countSearchableFiles:
  "card (file' ` set (performSearch cwd fs searchDir query allowedTypes))
     \<le> countSearchableFiles fs searchDir allowedTypes"
proof (cases "statPath fs searchDir")
  case None
  then show ?thesis by (simp add: performSearch_def slice_def)
next
  case (Some node)
  let ?w = "walkFiles allowedTypes searchDir node"
  let ?rel = "\<lambda>f. relative cwd (ANGULAR_PROJECT_PATH cwd) (fst f)"
  have sub: "set (performSearch cwd fs searchDir query allowedTypes)
          \<subseteq> set (concat (map (hitsOfFile cwd query) ?w))"
    using set_take_subset[of 50 "concat (map (hitsOfFile cwd query) ?w)"] Some
    by (simp only: performSearch_take traversalHits_def option.case)
  have "file' ` set (performSearch cwd fs searchDir query allowedTypes) \<subseteq> ?rel ` set ?w"
  proof
    fix x assume "x \<in> file' ` set (performSearch cwd fs searchDir query allowedTypes)"
    then obtain h where h: "h \<in> set (performSearch cwd fs searchDir query allowedTypes)" "x = file' h"
      by blast
    with sub obtain f where f: "f \<in> set ?w" "h \<in> set (hitsOfFile cwd query f)"
      by auto
    from hitsOfFile_file[OF f(2)] h(2) f(1) show "x \<in> ?rel ` set ?w" by simp
  qed
  then have "card (file' ` set (performSearch cwd fs searchDir query allowedTypes))
               \<le> card (?rel ` set ?w)"
    by (rule card_mono[rotated]) simp
  also have "\<dots> \<le> card (set ?w)" by (rule card_image_le) simp
  also have "\<dots> \<le> length ?w" by (rule card_length)
  finally show ?thesis using Some by (simp add: countSearchableFiles_walk)
qed

theorem performSearch_first_50_in_traversal_order_witness:
  "length (traversalHits exampleCwd manyLinesFs (ANGULAR_PROJECT_PATH exampleCwd) ''a''
             ALLOWED_EXTENSIONS) = 52
   \<and> map line (performSearch exampleCwd manyLinesFs (ANGULAR_PROJECT_PATH exampleCwd) ''a''
                 ALLOWED_EXTENSIONS) = [1..<51]
   \<and> performSearch exampleCwd manyLinesFs (ANGULAR_PROJECT_PATH exampleCwd) ''a''
        ALLOWED_EXTENSIONS
       = take 50 (traversalHits exampleCwd manyLinesFs (ANGULAR_PROJECT_PATH exampleCwd) ''a''
                    ALLOWED_EXTENSIONS)"
proof -
  have all: "length (traversalHits exampleCwd manyLinesFs (ANGULAR_PROJECT_PATH exampleCwd) ''a''
             ALLOWED_EXTENSIONS) = 52"
    by code_simp
  have kept: "map line (performSearch exampleCwd manyLinesFs (ANGULAR_PROJECT_PATH exampleCwd) ''a''
                 ALLOWED_EXTENSIONS) = [1..<51]"
    by code_simp
  from all kept
    performSearch_first_50_in_traversal_order
      [of exampleCwd manyLinesFs "ANGULAR_PROJECT_PATH exampleCwd" "''a''" ALLOWED_EXTENSIONS]
  show ?thesis by blast
qed

theorem search_files_le_countSearchableFiles_witness:
  "map file' (performSearch exampleCwd exampleFs (ANGULAR_PROJECT_PATH exampleCwd) ''signal''
                ALLOWED_EXTENSIONS) = [''counter.ts'']
   \<and> countSearchableFiles exampleFs (ANGULAR_PROJECT_PATH exampleCwd) ALLOWED_EXTENSIONS = 2
   \<and> card (file' ` set (performSearch exampleCwd exampleFs (ANGULAR_PROJECT_PATH exampleCwd)
                           ''signal'' ALLOWED_EXTENSIONS))
       \<le> countSearchableFiles exampleFs (ANGULAR_PROJECT_PATH exampleCwd) ALLOWED_EXTENSIONS"
proof -
  have found: "map file' (performSearch exampleCwd exampleFs (ANGULAR_PROJECT_PATH exampleCwd)
                 ''signal'' ALLOWED_EXTENSIONS) = [''counter.ts'']"
    by code_simp
  have counted: "countSearchableFiles exampleFs (ANGULAR_PROJECT_PATH exampleCwd)
                   ALLOWED_EXTENSIONS = 2"
    by code_simp
  from found counted
    search_files_le_countSearchableFiles
      [of exampleCwd exampleFs "ANGULAR_PROJECT_PATH exampleCwd" "''signal''" ALLOWED_EXTENSIONS]
  show ?thesis by blast
qed

section \<open>Properties of the usage graph\<close>

lemma allCounted_mapSet: "allCounted m \<Longrightarrow> counted v \<Longrightarrow> allCounted (mapSet k v m)"
  by (induction k v m rule: mapSet.induct) (auto simp: allCounted_def)

lemma allCounted_lookup: "allCounted m \<Longrightarrow> map_of m k = Some u \<Longrightarrow> counted u"
proof -
  assume a: "allCounted m" and l: "map_of m k = Some u"
  from l have "(k, u) \<in> set m" by (rule map_of_SomeD)
  then have "u \<in> set (map snd m)" by force
  with a show "counted u" by (auto simp: allCounted_def list_all_iff)
qed

lemma allCounted_recordUsage: "allCounted m \<Longrightarrow> allCounted (recordUsage k loc m)"
  by (auto simp: recordUsage_def counted_def split: option.splits
      intro!: allCounted_mapSet dest: allCounted_lookup)

lemma forEachIndexed_invariant:
  "P st \<Longrightarrow> (\<And>x i s. P s \<Longrightarrow> P (f x i s)) \<Longrightarrow> P (forEachIndexed f xs index st)"
  by (induction xs arbitrary: index st) auto

lemma foldl_invariant:
  "P st \<Longrightarrow> (\<And>x s. P s \<Longrightarrow> P (f s x)) \<Longrightarrow> P (foldl f st xs)"
  by (induction xs arbitrary: st) auto

lemma scanDirectory_invariant:
  assumes "\<And>p c s. P s \<Longrightarrow> P (h p c s)"
  shows "P st \<Longrightarrow> P (scanDirectory h dir node st)"
    and "P st \<Longrightarrow> P (scanItems h dir items st)"
  using assms
  by (induction h dir node st and h dir items st rule: scanDirectory_scanItems.induct)
     (auto simp: Let_def)

lemma allCounted_discoverFile:
  "allCounted m \<Longrightarrow> allCounted (discoverFile cwd projectPath filePath readResult m)"
  by (auto simp: discoverFile_def Let_def counted_def split: option.splits intro!: allCounted_mapSet)

lemma allCounted_scanTypeScriptLine:
  "allCounted m \<Longrightarrow> allCounted (scanTypeScriptLine filePath includeContext lines ln index m)"
  unfolding scanTypeScriptLine_def Let_def
  by (auto split: option.splits intro!: foldl_invariant[where P = allCounted]
      simp: importNameUsage_def componentRefUsage_def allCounted_recordUsage)

lemma allCounted_scanTypeScriptFile:
  "allCounted m \<Longrightarrow> allCounted (scanTypeScriptFile content filePath m includeContext)"
  unfolding scanTypeScriptFile_def Let_def
  by (rule forEachIndexed_invariant) (auto intro: allCounted_scanTypeScriptLine)

lemma allCounted_scanTemplateLine:
  "allCounted m \<Longrightarrow>
   allCounted (outcomeState (scanTemplateLine rx filePath includeContext lines ln index ks m))"
proof (induction ks arbitrary: m)
  case Nil
  then show ?case by simp
next
  case (Cons k ks)
  show ?case
  proof (cases "map_of m k")
    case None
    then show ?thesis using Cons by simp
  next
    case (Some usage)
    show ?thesis
    proof (cases "selectorRegexTest rx (selector usage) ln")
      case None
      then show ?thesis using Some Cons.prems by simp
    next
      case (Some matched)
      have "allCounted (if matched then recordUsage k
               \<lparr>loc_file = filePath, loc_type = Template, loc_line = index + 1,
                loc_context = (if includeContext then getContextLines lines index 1 else []),
                loc_usage = ''Template: <'' @ selector usage @ ''>''\<rparr> m else m)"
        using Cons.prems by (simp add: allCounted_recordUsage)
      from Cons.IH[OF this] show ?thesis using \<open>map_of m k = Some usage\<close> Some by simp
    qed
  qed
qed

lemma allCounted_scanTemplateLines:
  "allCounted m \<Longrightarrow>
   allCounted (outcomeState (scanTemplateLines rx filePath includeContext lines ls index m))"
proof (induction rx filePath includeContext lines ls index m rule: scanTemplateLines.induct)
  case (1 rx filePath includeContext lines index componentUsages)
  then show ?case by simp
next
  case (2 rx filePath includeContext lines ln rest index componentUsages)
  from allCounted_scanTemplateLine[OF 2(2), of rx filePath includeContext lines ln index
        "map fst componentUsages"] 2(1)
  show ?case by (auto split: outcome.splits)
qed

lemma allCounted_usageFile:
  "allCounted m \<Longrightarrow> allCounted (usageFile rx cwd projectPath includeContext filePath readResult m)"
  by (auto simp: usageFile_def Let_def scanTemplateFile_def split: option.splits
      intro: allCounted_scanTypeScriptFile allCounted_scanTemplateLines)

lemma allCounted_scan:
  "allCounted (scanForUsages rx cwd fs projectPath (discoverComponents cwd fs projectPath []) includeContext)"
proof -
  have d: "allCounted (discoverComponents cwd fs projectPath [])"
    unfolding discoverComponents_def Let_def
    by (auto split: option.splits simp: allCounted_def[of "[]"]
        intro!: scanDirectory_invariant(1)[where P = allCounted] allCounted_discoverFile)
  show ?thesis
    unfolding scanForUsages_def Let_def using d
    by (auto split: option.splits
        intro!: scanDirectory_invariant(1)[where P = allCounted] allCounted_usageFile)
qed

lemma set_analyze:
  "set (analyzeComponentUsage rx cwd fs projectPath targetComponent includeContext)
     \<subseteq> snd ` set (scanForUsages rx cwd fs projectPath (discoverComponents cwd fs projectPath []) includeContext)"
  by (auto simp: analyzeComponentUsage_def Let_def sortByUsage_def)

text \<open>
  C3. Every component returned by \<^verbatim>\<open>analyzeComponentUsage\<close>, with or without a filter,
  has a counter equal to the length of its usage list: components are registered with an
  empty list and a zero counter, and every append comes with one increment.
\<close>

theorem totalUsages_eq_length_usedIn:
  "\<forall>u \<in> set (analyzeComponentUsage rx cwd fs projectPath targetComponent includeContext).
     totalUsages u = length (usedIn u)"
proof
  fix u assume "u \<in> set (analyzeComponentUsage rx cwd fs projectPath targetComponent includeContext)"
  with set_analyze have "u \<in> snd ` set (scanForUsages rx cwd fs projectPath
      (discoverComponents cwd fs projectPath []) includeContext)" by blast
  with allCounted_scan[of rx cwd fs projectPath includeContext]
  show "totalUsages u = length (usedIn u)"
    by (auto simp: allCounted_def list_all_iff counted_def)
qed

text \<open>Without a filter the components come sorted, larger counts first.\<close>

lemma analyze_unfiltered_sorted:
  "sorted_wrt (\<lambda>a b. totalUsages b \<le> totalUsages a)
     (analyzeComponentUsage rx cwd fs projectPath [] includeContext)"
proof -
  have "sorted (map (\<lambda>u. - int (totalUsages u)) (sortByUsage xs))" for xs
    by (simp add: sortByUsage_def)
  then have "sorted_wrt (\<lambda>a b. totalUsages b \<le> totalUsages a) (sortByUsage xs)" for xs
    by (simp add: sorted_wrt_map sorted_wrt_iff_nth_less) 
  then show ?thesis by (simp add: analyzeComponentUsage_def Let_def)
qed

text \<open>
  C6. With a non-empty filter string, the components returned are among those returned
  without a filter, and each of them has a name or a selector that contains the filter
  string when both are put in lower case.
\<close>

theorem filtered_subset_and_matching:
  assumes "targetComponent \<noteq> []"
  shows "set (analyzeComponentUsage rx cwd fs projectPath targetComponent includeContext)
           \<subseteq> set (analyzeComponentUsage rx cwd fs projectPath [] includeContext)
         \<and> (\<forall>u \<in> set (analyzeComponentUsage rx cwd fs projectPath targetComponent includeContext).
               str_includes (toLowerCase (component u)) (toLowerCase targetComponent)
             \<or> str_includes (toLowerCase (selector u)) (toLowerCase targetComponent))"
  using assms by (auto simp: analyzeComponentUsage_def Let_def sortByUsage_def matchesTarget_def)

theorem totalUsages_eq_length_usedIn_witness:
  "map totalUsages
     (analyzeComponentUsage noEngine exampleCwd usageFs (ANGULAR_PROJECT_PATH exampleCwd) [] True)
     = [1, 0]
   \<and> map (\<lambda>u. length (usedIn u))
       (analyzeComponentUsage noEngine exampleCwd usageFs (ANGULAR_PROJECT_PATH exampleCwd) [] True)
     = map totalUsages
         (analyzeComponentUsage noEngine exampleCwd usageFs (ANGULAR_PROJECT_PATH exampleCwd) [] True)"
proof -
  let ?r = "analyzeComponentUsage noEngine exampleCwd usageFs (ANGULAR_PROJECT_PATH exampleCwd)
              [] True"
  have c: "map totalUsages ?r = [1, 0]"
    by code_simp
  have "\<forall>u \<in> set ?r. length (usedIn u) = totalUsages u"
    using totalUsages_eq_length_usedIn
            [of noEngine exampleCwd usageFs "ANGULAR_PROJECT_PATH exampleCwd" "[]" True]
    by simp
  then have m: "map (\<lambda>u. length (usedIn u)) ?r = map totalUsages ?r"
    by (simp only: map_eq_conv)
  from c m show ?thesis by (rule conjI)
qed

theorem filtered_subset_and_matching_witness:
  "''APP-B'' \<noteq> []
   \<and> map component
       (analyzeComponentUsage noEngine exampleCwd usageFs (ANGULAR_PROJECT_PATH exampleCwd)
          ''APP-B'' True)
       = [''BComponent'']
   \<and> set (analyzeComponentUsage noEngine exampleCwd usageFs (ANGULAR_PROJECT_PATH exampleCwd)
            ''APP-B'' True)
       \<subseteq> set (analyzeComponentUsage noEngine exampleCwd usageFs
                  (ANGULAR_PROJECT_PATH exampleCwd) [] True)
   \<and> list_all
         (\<lambda>u. str_includes (toLowerCase (component u)) (toLowerCase ''APP-B'')
              \<or> str_includes (toLowerCase (selector u)) (toLowerCase ''APP-B''))
         (analyzeComponentUsage noEngine exampleCwd usageFs (ANGULAR_PROJECT_PATH exampleCwd)
            ''APP-B'' True)"
proof -
  have ne: "''APP-B'' \<noteq> []" by simp
  have names: "map component
       (analyzeComponentUsage noEngine exampleCwd usageFs (ANGULAR_PROJECT_PATH exampleCwd)
          ''APP-B'' True)
       = [''BComponent'']"
    by code_simp
  from filtered_subset_and_matching
         [OF ne, of noEngine exampleCwd usageFs "ANGULAR_PROJECT_PATH exampleCwd" True]
    ne names
  show ?thesis by (simp only: list_all_iff) blast
qed

text \<open>
  C4. With a filter string the components come in the order in which they were found,
  not sorted: in the example project the filter \<^verbatim>\<open>component\<close> keeps both components, the
  unused one first.
\<close>

theorem filtered_result_not_sorted:
  "map totalUsages
     (analyzeComponentUsage noEngine exampleCwd usageFs (ANGULAR_PROJECT_PATH exampleCwd)
        ''component'' True)
     = [0, 1]
   \<and> \<not> sorted_wrt (\<lambda>a b. totalUsages b \<le> totalUsages a)
       (analyzeComponentUsage noEngine exampleCwd usageFs (ANGULAR_PROJECT_PATH exampleCwd)
          ''component'' True)"
proof -
  let ?r = "analyzeComponentUsage noEngine exampleCwd usageFs (ANGULAR_PROJECT_PATH exampleCwd)
        ''component'' True"
  have c: "map totalUsages ?r = [0, 1]" by code_simp
  have "sorted_wrt (\<lambda>a b. totalUsages b \<le> totalUsages a) ?r
          = sorted_wrt (\<lambda>x y. y \<le> x) (map totalUsages ?r)"
    by (simp only: sorted_wrt_map)
  also have "\<dots> = False" by (simp only: c) simp
  finally show ?thesis using c by simp
qed

section \<open>Properties of the Path Guard\<close>

text \<open>
  The guard accepts exactly when its three checks pass: the resolved path begins with
  the string of the scan root, its extension is allowed, and it names a regular file.
\<close>

lemma validateFilePath_accepts_iff:
  "validateFilePath cwd fs filePath = Inr p \<longleftrightarrow>
     p = resolve cwd [ANGULAR_PROJECT_PATH cwd, filePath]
     \<and> startsWith p (resolve cwd [ANGULAR_PROJECT_PATH cwd])
     \<and> extname p \<in> set ALLOWED_EXTENSIONS
     \<and> (\<exists>c. statPath fs p = Some (FileNode c))"
proof -
  have regular: "isFile n \<longleftrightarrow> (\<exists>c. n = FileNode c)" for n
    by (cases n) auto
  show ?thesis
    by (auto simp: validateFilePath_def Let_def regular split: option.splits)
qed

text \<open>
  C1. The guard accepts a path that does not lie inside the scan root: for the scan root
  \<^verbatim>\<open>/srv/learning-notebook\<close> the argument \<^verbatim>\<open>../learning-notebook-old/notes.ts\<close> resolves
  to a file of the sibling directory \<^verbatim>\<open>/srv/learning-notebook-old\<close>, whose path begins
  with the string of the scan root, and the call returns that path.
\<close>

theorem validateFilePath_accepts_sibling_of_root:
  "validateFilePath exampleCwd exampleFs ''../learning-notebook-old/notes.ts''
     = Inr ''/srv/learning-notebook-old/notes.ts''
   \<and> \<not> pathInside (ANGULAR_PROJECT_PATH exampleCwd) ''/srv/learning-notebook-old/notes.ts''"
  by code_simp

text \<open>
  The guard makes its three tests in source order: the string-prefix test, then the
  extension, then the regular file. A path that fails the prefix test is reported out of
  scope whatever its extension and whether or not it exists; a path that passes it and
  has an extension that is not allowed is reported as a disallowed type whether or not
  it exists; only a path that passes both can be reported inaccessible.
\<close>

lemma validateFilePath_test_order:
  "(\<not> startsWith (resolve cwd [ANGULAR_PROJECT_PATH cwd, filePath])
          (resolve cwd [ANGULAR_PROJECT_PATH cwd])
      \<longrightarrow> validateFilePath cwd fs filePath = Inl OutOfScope)
   \<and> (startsWith (resolve cwd [ANGULAR_PROJECT_PATH cwd, filePath])
          (resolve cwd [ANGULAR_PROJECT_PATH cwd])
      \<and> extname (resolve cwd [ANGULAR_PROJECT_PATH cwd, filePath]) \<notin> set ALLOWED_EXTENSIONS
      \<longrightarrow> validateFilePath cwd fs filePath
            = Inl (DisallowedType (extname (resolve cwd [ANGULAR_PROJECT_PATH cwd, filePath]))))
   \<and> (startsWith (resolve cwd [ANGULAR_PROJECT_PATH cwd, filePath])
          (resolve cwd [ANGULAR_PROJECT_PATH cwd])
      \<and> extname (resolve cwd [ANGULAR_PROJECT_PATH cwd, filePath]) \<in> set ALLOWED_EXTENSIONS
      \<and> (\<forall>c. statPath fs (resolve cwd [ANGULAR_PROJECT_PATH cwd, filePath]) \<noteq> Some (FileNode c))
      \<longrightarrow> validateFilePath cwd fs filePath = Inl NotAccessible)"
proof -
  have regular: "isFile n \<longleftrightarrow> (\<exists>c. n = FileNode c)" for n
    by (cases n) auto
  show ?thesis
    by (auto simp: validateFilePath_def Let_def regular split: option.splits)
qed

lemma validateFilePath_test_order_examples:
  "extname (resolve exampleCwd [ANGULAR_PROJECT_PATH exampleCwd, ''../../etc/passwd.exe''])
      \<notin> set ALLOWED_EXTENSIONS
   \<and> statPath exampleFs (resolve exampleCwd [ANGULAR_PROJECT_PATH exampleCwd, ''../../etc/passwd.exe''])
      = None
   \<and> validateFilePath exampleCwd exampleFs ''../../etc/passwd.exe'' = Inl OutOfScope
   \<and> statPath exampleFs (resolve exampleCwd [ANGULAR_PROJECT_PATH exampleCwd, ''missing.exe''])
      = None
   \<and> validateFilePath exampleCwd exampleFs ''missing.exe'' = Inl (DisallowedType ''.exe'')
   \<and> validateFilePath exampleCwd exampleFs ''missing.ts'' = Inl NotAccessible"
proof -
  let ?root = "resolve exampleCwd [ANGULAR_PROJECT_PATH exampleCwd]"
  let ?p1 = "resolve exampleCwd [ANGULAR_PROJECT_PATH exampleCwd, ''../../etc/passwd.exe'']"
  let ?p2 = "resolve exampleCwd [ANGULAR_PROJECT_PATH exampleCwd, ''missing.exe'']"
  let ?p3 = "resolve exampleCwd [ANGULAR_PROJECT_PATH exampleCwd, ''missing.ts'']"
  have a1: "\<not> startsWith ?p1 ?root" by code_simp
  have b1: "extname ?p1 \<notin> set ALLOWED_EXTENSIONS" by code_simp
  have c1: "statPath exampleFs ?p1 = None" by code_simp
  have a2: "startsWith ?p2 ?root" by code_simp
  have b2: "extname ?p2 \<notin> set ALLOWED_EXTENSIONS" by code_simp
  have e2: "extname ?p2 = ''.exe''" by code_simp
  have c2: "statPath exampleFs ?p2 = None" by code_simp
  have a3: "startsWith ?p3 ?root" by code_simp
  have b3: "extname ?p3 \<in> set ALLOWED_EXTENSIONS" by code_simp
  have c3: "statPath exampleFs ?p3 = None" by code_simp
  have v1: "validateFilePath exampleCwd exampleFs ''../../etc/passwd.exe'' = Inl OutOfScope"
    using validateFilePath_test_order
            [where cwd = exampleCwd and fs = exampleFs and filePath = "''../../etc/passwd.exe''"] a1
    by blast
  have v2: "validateFilePath exampleCwd exampleFs ''missing.exe'' = Inl (DisallowedType ''.exe'')"
    using validateFilePath_test_order
            [where cwd = exampleCwd and fs = exampleFs and filePath = "''missing.exe''"] a2 b2 e2
    by metis
  have v3: "validateFilePath exampleCwd exampleFs ''missing.ts'' = Inl NotAccessible"
    using validateFilePath_test_order
            [where cwd = exampleCwd and fs = exampleFs and filePath = "''missing.ts''"] a3 b3 c3
    by simp
  from b1 c1 v1 c2 v2 v3 show ?thesis by blast
qed

text \<open>
  C9. The first condition of the claimed order is containment inside the scan root, but
  the guard's first test is the string-prefix test. The argument
  \<^verbatim>\<open>../learning-notebook-old/notes.exe\<close> resolves to a path outside the scan root
  \<^verbatim>\<open>/srv/learning-notebook\<close> and has an extension that is not allowed: it violates the
  first and the second condition, and the guard reports the second, a disallowed type,
  not that the path is out of scope.
\<close>

theorem validateFilePath_sibling_reports_disallowed_type:
  "validateFilePath exampleCwd exampleFs ''../learning-notebook-old/notes.exe''
     = Inl (DisallowedType ''.exe'')
   \<and> resolve exampleCwd [ANGULAR_PROJECT_PATH exampleCwd, ''../learning-notebook-old/notes.exe'']
     = ''/srv/learning-notebook-old/notes.exe''
   \<and> \<not> pathInside (ANGULAR_PROJECT_PATH exampleCwd) ''/srv/learning-notebook-old/notes.exe''
   \<and> extname ''/srv/learning-notebook-old/notes.exe'' \<notin> set ALLOWED_EXTENSIONS"
  by code_simp


section \<open>One matching line gives one hit\<close>

lemma splitOn_no_sep: "d \<notin> set x \<Longrightarrow> splitOn d x = [x]"
  by (induction x) auto

lemma splitOn_append_sep: "d \<notin> set x \<Longrightarrow> splitOn d (x @ d # rest) = x # splitOn d rest"
  by (induction x) auto

lemma splitOn_joinWith:
  "ls \<noteq> [] \<Longrightarrow> (\<And>l. l \<in> set ls \<Longrightarrow> d \<notin> set l) \<Longrightarrow> splitOn d (joinWith [d] ls) = ls"
proof (induction "[d]" ls rule: joinWith.induct)
  case 1
  then show ?case by simp
next
  case (2 x)
  then show ?case by (simp add: splitOn_no_sep)
next
  case (3 x y ys)
  then show ?case by (simp add: splitOn_append_sep)
qed

lemma startsWith_append: "startsWith s q \<Longrightarrow> startsWith (s @ t) q"
  by (induction s q rule: startsWith.induct) auto

lemma str_includes_append_right: "str_includes s q \<Longrightarrow> str_includes (s @ t) q"
proof (induction s)
  case Nil
  then show ?case by (cases t) auto
next
  case (Cons c s)
  then show ?case using startsWith_append[of "c # s" q t] by auto
qed

lemma str_includes_append_left: "str_includes s q \<Longrightarrow> str_includes (p @ s) q"
  by (induction p) auto

lemma signal_line_matches:
  assumes "query = ''signal'' \<or> query = ''Signal'' \<or> query = ''SIGNAL''"
  shows "lineMatches query (lead @ ''const x = signal(0);'' @ trail)"
proof -
  have q: "toLowerCase query = ''signal''"
    using assms by (auto simp: toLowerCase_def toLowerChar_def upperChars_def lowerChars_def)
  have "str_includes (toLowerCase ''const x = signal(0);'') ''signal''"
    by (simp add: toLowerCase_def toLowerChar_def upperChars_def lowerChars_def)
  then have "str_includes (toLowerCase lead @ toLowerCase ''const x = signal(0);'' @ toLowerCase trail) ''signal''"
    by (intro str_includes_append_left str_includes_append_right)
  then have "str_includes (toLowerCase (lead @ ''const x = signal(0);'' @ trail)) ''signal''"
    by (simp only: toLowerCase_def map_append)
  then show ?thesis by (simp only: lineMatches_def q)
qed

lemma trim_signal_line:
  assumes "\<And>c. c \<in> set lead \<Longrightarrow> isSpace c" "\<And>c. c \<in> set trail \<Longrightarrow> isSpace c"
  shows "trim (lead @ ''const x = signal(0);'' @ trail) = ''const x = signal(0);''"
proof -
  have 1: "dropWhile isSpace (lead @ ''const x = signal(0);'' @ trail) = ''const x = signal(0);'' @ trail"
    using assms(1) by (simp add: dropWhile_append2 isSpace_def)
  have 2: "dropWhile isSpace (rev trail @ rev ''const x = signal(0);'') = rev ''const x = signal(0);''"
    using assms(2) by (subst dropWhile_append2) (auto simp: isSpace_def)
  show ?thesis unfolding trim_def 1 using 2 by simp
qed

lemma filter_single_index:
  assumes "\<And>i. i < length before \<Longrightarrow> \<not> P (before ! i)"
      and "\<And>i. i < length after \<Longrightarrow> \<not> P (after ! i)"
      and "P ln"
  shows "filter (\<lambda>i. P ((before @ ln # after) ! i)) [0..<length (before @ ln # after)] = [length before]"
proof -
  let ?n = "length before"
  have "[0..<?n + Suc (length after)] = [0..<?n] @ [?n..<?n + Suc (length after)]"
    by (rule upt_add_eq_append) simp
  moreover have "[?n..<?n + Suc (length after)] = ?n # [Suc ?n..<?n + Suc (length after)]"
    by (rule upt_conv_Cons) simp
  ultimately have split:
    "[0..<length (before @ ln # after)] = [0..<?n] @ [?n] @ [Suc ?n..<Suc ?n + length after]"
    by simp
  have a: "filter (\<lambda>i. P ((before @ ln # after) ! i)) [0..<?n] = []"
    using assms(1) by (auto simp: filter_empty_conv nth_append)
  have b: "filter (\<lambda>i. P ((before @ ln # after) ! i)) [Suc ?n..<Suc ?n + length after] = []"
  proof -
    have "\<not> P ((before @ ln # after) ! i)" if "Suc ?n \<le> i" "i < Suc ?n + length after" for i
    proof -
      have "(before @ ln # after) ! i = after ! (i - Suc ?n)"
        using that by (auto simp: nth_append nth_Cons')
      then show ?thesis using assms(2)[of "i - Suc ?n"] that by auto
    qed
    then show ?thesis by (simp add: filter_empty_conv del: upt_Suc)
  qed
  show ?thesis unfolding split using a b assms(3) by simp
qed

lemma excerpt_window:
  "take (length before + 3 - (length before - 2)) (drop (length before - 2) (before @ ln # after))
     = drop (length before - 2) before @ [ln] @ take 2 after"
proof (cases "2 \<le> length before")
  case True
  then have "length before + 3 - (length before - 2) = 5" by simp
  moreover have "length (drop (length before - 2) before) = 2" using True by simp
  ultimately show ?thesis using True by (simp add: numeral_eq_Suc)
next
  case False
  then consider "length before = 0" | "length before = 1" by linarith
  then show ?thesis
  proof cases
    case 1 then show ?thesis by (simp add: numeral_eq_Suc)
  next
    case 2
    then obtain b where "before = [b]" by (cases before) auto
    then show ?thesis by (simp add: numeral_eq_Suc)
  qed
qed

text \<open>
  C8. A directory holds one searchable file; one of its lines is
  \<^verbatim>\<open>const x = signal(0);\<close>, possibly with white space around it, and no other line
  contains the query. Then a search for \<^verbatim>\<open>signal\<close>, \<^verbatim>\<open>Signal\<close> or \<^verbatim>\<open>SIGNAL\<close> returns
  exactly one hit: its line number is that of the line, its context is the line without
  the surrounding white space, and its excerpt is the line with the two lines before it
  and the two lines after it, as far as the file has them.
\<close>

theorem single_signal_line:
  assumes q: "query = ''signal'' \<or> query = ''Signal'' \<or> query = ''SIGNAL''"
    and dir: "statPath fs searchDir = Some (DirNode (Some [(name, FileNode (Some content))]))"
    and ext: "extname name \<in> set allowedTypes"
    and content: "content = joinWith [CHR 0x0A] (before @ [ln] @ after)"
    and ln: "ln = lead @ ''const x = signal(0);'' @ trail"
    and sp: "\<forall>c \<in> set (lead @ trail). isSpace c \<and> c \<noteq> CHR 0x0A"
    and nonl: "\<forall>l \<in> set (before @ after). CHR 0x0A \<notin> set l"
    and nomatch: "\<forall>l \<in> set (before @ after). \<not> lineMatches query l"
  shows "performSearch cwd fs searchDir query allowedTypes =
     [\<lparr>file' = relative cwd (ANGULAR_PROJECT_PATH cwd) (pathJoin [searchDir, name]),
       line = length before + 1,
       context' = ''const x = signal(0);'',
       excerpt = joinWith [CHR 0x0A] (drop (length before - 2) before @ [ln] @ take 2 after)\<rparr>]"
proof -
  let ?lines = "before @ ln # after"
  have nl_ln: "CHR 0x0A \<notin> set ln" using sp by (auto simp: ln)
  have lines: "splitOn (CHR 0x0A) content = ?lines"
    unfolding content using nonl nl_ln by (subst splitOn_joinWith) auto
  have m: "lineMatches query ln" unfolding ln by (rule signal_line_matches[OF q])
  have idx: "filter (\<lambda>i. lineMatches query (?lines ! i)) [0..<length ?lines] = [length before]"
    using nomatch m by (intro filter_single_index) auto
  have tr: "trim ln = ''const x = signal(0);''"
    unfolding ln using sp by (intro trim_signal_line) auto
  have hits: "hitsOfFile cwd query (pathJoin [searchDir, name], Some content) =
     [\<lparr>file' = relative cwd (ANGULAR_PROJECT_PATH cwd) (pathJoin [searchDir, name]),
       line = length before + 1,
       context' = ''const x = signal(0);'',
       excerpt = joinWith [CHR 0x0A] (drop (length before - 2) before @ [ln] @ take 2 after)\<rparr>]"
  proof -
    have "hitsOfFile cwd query (pathJoin [searchDir, name], Some content) =
        map (hitAt cwd (pathJoin [searchDir, name]) ?lines)
          (filter (\<lambda>i. lineMatches query (?lines ! i)) [0..<length ?lines])"
      by (simp only: hitsOfFile_def snd_conv fst_conv option.case lines Let_def)
    also have "\<dots> = [hitAt cwd (pathJoin [searchDir, name]) ?lines (length before)]"
      by (simp only: idx list.map)
    finally show ?thesis
      by (simp add: hitAt_def tr excerpt_window)
  qed
  have walk: "walkFiles allowedTypes searchDir (DirNode (Some [(name, FileNode (Some content))]))
      = [(pathJoin [searchDir, name], Some content)]"
    using ext by simp
  show ?thesis
    by (simp only: performSearch_take traversalHits_def dir option.case walk list.map concat.simps
        append_Nil2 hits) simp
qed

theorem single_signal_line_witness:
  "performSearch exampleCwd signalFs ''/srv/learning-notebook/src'' ''signal'' ALLOWED_EXTENSIONS
     = [\<lparr>file' = ''src/counter.ts'', line = 3, context' = ''const x = signal(0);'',
         excerpt = joinWith [CHR 0x0A]
                     [''// counter'', ''export class Counter {'', ''  const x = signal(0);  '',
                      ''  // end'', ''}'']\<rparr>]
   \<and> performSearch exampleCwd signalFs ''/srv/learning-notebook/src'' ''Signal'' ALLOWED_EXTENSIONS
     = performSearch exampleCwd signalFs ''/srv/learning-notebook/src'' ''signal'' ALLOWED_EXTENSIONS
   \<and> performSearch exampleCwd signalFs ''/srv/learning-notebook/src'' ''SIGNAL'' ALLOWED_EXTENSIONS
     = performSearch exampleCwd signalFs ''/srv/learning-notebook/src'' ''signal'' ALLOWED_EXTENSIONS"
proof -
  let ?before = "[''// counter'', ''export class Counter {'']"
  let ?after = "[''  // end'', ''}'', ''// eof'', []]"
  have dir: "statPath signalFs ''/srv/learning-notebook/src''
      = Some (DirNode (Some [(''counter.ts'', FileNode (Some signalFile))]))"
    by code_simp
  have ext: "extname ''counter.ts'' \<in> set ALLOWED_EXTENSIONS" by code_simp
  have content: "signalFile = joinWith [CHR 0x0A] (?before @ [''  const x = signal(0);  ''] @ ?after)"
    by (simp add: signalFile_def)
  have ln: "''  const x = signal(0);  '' = ''  '' @ ''const x = signal(0);'' @ ''  ''" by simp
  have sp: "\<forall>c \<in> set (''  '' @ ''  ''). isSpace c \<and> c \<noteq> CHR 0x0A" by (simp add: isSpace_def)
  have nonl: "\<forall>l \<in> set (?before @ ?after). CHR 0x0A \<notin> set l" by simp
  have nomatch: "\<forall>l \<in> set (?before @ ?after). \<not> lineMatches q l"
    if "toLowerCase q = ''signal''" for q
    by (simp add: lineMatches_def that) (simp add: toLowerCase_def toLowerChar_def upperChars_def lowerChars_def)
  have low: "toLowerCase ''signal'' = ''signal''" "toLowerCase ''Signal'' = ''signal''"
    "toLowerCase ''SIGNAL'' = ''signal''"
    by (simp_all add: toLowerCase_def toLowerChar_def upperChars_def lowerChars_def)
  have rel: "relative exampleCwd (ANGULAR_PROJECT_PATH exampleCwd)
               (pathJoin [''/srv/learning-notebook/src'', ''counter.ts'']) = ''src/counter.ts''"
    by code_simp
  have r: "performSearch exampleCwd signalFs ''/srv/learning-notebook/src'' q ALLOWED_EXTENSIONS
     = [\<lparr>file' = ''src/counter.ts'', line = 3, context' = ''const x = signal(0);'',
         excerpt = joinWith [CHR 0x0A]
                     [''// counter'', ''export class Counter {'', ''  const x = signal(0);  '',
                      ''  // end'', ''}'']\<rparr>]"
    if q: "q = ''signal'' \<or> q = ''Signal'' \<or> q = ''SIGNAL''" for q
  proof -
    from q low have "toLowerCase q = ''signal''" by auto
    note nm = nomatch[OF this]
    show ?thesis
      using single_signal_line[OF q dir ext content ln sp nonl nm, of exampleCwd]
      by (simp add: rel)
  qed
  have r1: "performSearch exampleCwd signalFs ''/srv/learning-notebook/src'' ''signal''
              ALLOWED_EXTENSIONS
     = [\<lparr>file' = ''src/counter.ts'', line = 3, context' = ''const x = signal(0);'',
         excerpt = joinWith [CHR 0x0A]
                     [''// counter'', ''export class Counter {'', ''  const x = signal(0);  '',
                      ''  // end'', ''}'']\<rparr>]"
    by (rule r) simp
  have r2: "performSearch exampleCwd signalFs ''/srv/learning-notebook/src'' ''Signal''
              ALLOWED_EXTENSIONS
     = [\<lparr>file' = ''src/counter.ts'', line = 3, context' = ''const x = signal(0);'',
         excerpt = joinWith [CHR 0x0A]
                     [''// counter'', ''export class Counter {'', ''  const x = signal(0);  '',
                      ''  // end'', ''}'']\<rparr>]"
    by (rule r) simp
  have r3: "performSearch exampleCwd signalFs ''/srv/learning-notebook/src'' ''SIGNAL''
              ALLOWED_EXTENSIONS
     = [\<lparr>file' = ''src/counter.ts'', line = 3, context' = ''const x = signal(0);'',
         excerpt = joinWith [CHR 0x0A]
                     [''// counter'', ''export class Counter {'', ''  const x = signal(0);  '',
                      ''  // end'', ''}'']\<rparr>]"
    by (rule r) simp
  show ?thesis by (intro conjI) (simp_all only: r1 r2 r3)
qed


section \<open>Which directories a walk enters\<close>

text \<open>
  The walks of the search, of the file count and of the usage graph leave out hidden
  directories and the directories \<^verbatim>\<open>node_modules\<close> and \<^verbatim>\<open>dist\<close>.
\<close>

lemma searchItems_skips_excluded:
  "isDirectory item \<Longrightarrow> startsWith name ''.'' \<or> name = ''node_modules'' \<or> name = ''dist'' \<Longrightarrow>
   searchItems cwd query allowedTypes dir ((name, item) # items) results
     = searchItems cwd query allowedTypes dir items results"
  by (cases item) (auto simp: Let_def)

lemma countItems_skips_excluded:
  "isDirectory item \<Longrightarrow> startsWith name ''.'' \<or> name = ''node_modules'' \<or> name = ''dist'' \<Longrightarrow>
   countItems allowedTypes dir ((name, item) # items) count
     = countItems allowedTypes dir items count"
  by (cases item) (auto simp: Let_def)

lemma scanItems_skips_excluded:
  "isDirectory item \<Longrightarrow> startsWith name ''.'' \<or> name = ''node_modules'' \<or> name = ''dist'' \<Longrightarrow>
   scanItems fileHandler dirPath ((name, item) # items) st
     = scanItems fileHandler dirPath items st"
  by (cases item) (auto simp: Let_def)

lemma search_example_skips_node_modules:
  "map file' (performSearch exampleCwd exampleFs (ANGULAR_PROJECT_PATH exampleCwd) ''signal''
                ALLOWED_EXTENSIONS) = [''counter.ts'']
   \<and> countSearchableFiles exampleFs (ANGULAR_PROJECT_PATH exampleCwd) ALLOWED_EXTENSIONS = 2"
  by code_simp

text \<open>
  C5. The service discovery walk enters every directory: started in the services
  directory of the example project it reports the service of the package below
  \<^verbatim>\<open>node_modules\<close> along with the project's own service.
\<close>

theorem findServiceFiles_enters_node_modules:
  "map svc_path
     (findServiceFiles exampleCwd servicesFs
        (pathJoin [ANGULAR_PROJECT_PATH exampleCwd, ''src/app/core/services'']))
     = [''src/app/core/services/node_modules/pkg/http.service.ts'',
        ''src/app/core/services/theme.service.ts'']"
  by code_simp


section \<open>The search tool does not check the file types it is given\<close>

text \<open>
  C10. There is a call of the search tool that reads a file whose extension is not
  allowed and returns a line of it as a hit, although the Path Guard rejects the same
  file as a disallowed type: the list of file types given by the caller is the
  extension filter of the search as it stands.
\<close>

theorem search_reads_disallowed_type:
  "\<exists>cwd fs query fileTypes results totalFiles matchedFiles h.
     searchCodebase cwd fs query (Some fileTypes) None = Inr (results, totalFiles, matchedFiles)
     \<and> h \<in> set results
     \<and> extname (file' h) \<notin> set ALLOWED_EXTENSIONS
     \<and> validateFilePath cwd fs (file' h) = Inl (DisallowedType (extname (file' h)))"
proof -
  let ?h = "\<lparr>file' = ''notes.exe'', line = 1, context' = ''int signal = 0;'',
            excerpt = ''int signal = 0;''\<rparr>"
  have s: "searchCodebase exampleCwd exampleFs ''signal'' (Some [''.exe'']) None = Inr ([?h], 1, 1)"
    by code_simp
  have e: "extname ''notes.exe'' = ''.exe''" by code_simp
  have n: "''.exe'' \<notin> set ALLOWED_EXTENSIONS" by code_simp
  have v: "validateFilePath exampleCwd exampleFs ''notes.exe'' = Inl (DisallowedType ''.exe'')"
    by code_simp
  have "?h \<in> set [?h]" by simp
  moreover have "extname (file' ?h) \<notin> set ALLOWED_EXTENSIONS" using e n by simp
  moreover have "validateFilePath exampleCwd exampleFs (file' ?h)
                   = Inl (DisallowedType (extname (file' ?h)))"
    using v e by simp
  ultimately show ?thesis using s by blast
qed

end
